theory Spec2Isabelle
  imports Main
begin

section \<open>JavaScript values, rejections and asynchronous operations\<close>

text \<open>
  The servers are asynchronous JavaScript. An \<open>async\<close> function is modelled as a function
  of the state of the outside world (the chains, the nodes, the clock) that gives back
  either the value it rejects with (\<open>Inl\<close>) or the value it resolves to (\<open>Inr\<close>),
  together with the world after the call. JavaScript can throw any value, so the values
  a promise may reject with are \<open>Error\<close> objects (with their message) and primitives.
\<close>

type_synonym url = string
type_synonym address = string

datatype thrown =
    Error string
  | Undefined
  | Null
  | Str string
  | Num int
  | Boolean bool

text \<open>The truthiness test of \<open>||\<close>, \<open>!\<close> and \<open>if\<close> on such a value.\<close>

fun truthy_thrown :: "thrown \<Rightarrow> bool" where
  "truthy_thrown (Error m) = True"
| "truthy_thrown Undefined = False"
| "truthy_thrown Null = False"
| "truthy_thrown (Str s) = (s \<noteq> [])"
| "truthy_thrown (Num n) = (n \<noteq> 0)"
| "truthy_thrown (Boolean b) = b"

text \<open>
  Reading \<open>error.message\<close> gives the message of an \<open>Error\<close> and \<open>undefined\<close> on a string, a
  number or a boolean; on \<open>undefined\<close> and \<open>null\<close> it throws a \<open>TypeError\<close>, written
  \<open>Error ''TypeError''\<close> whatever its message is.
\<close>

fun error_message :: "thrown \<Rightarrow> thrown + string option" where
  "error_message (Error m) = Inr (Some m)"
| "error_message Undefined = Inl (Error ''TypeError'')"
| "error_message Null = Inl (Error ''TypeError'')"
| "error_message (Str s) = Inr None"
| "error_message (Num n) = Inr None"
| "error_message (Boolean b) = Inr None"

type_synonym ('w, 'a) async = "'w \<Rightarrow> (thrown + 'a) \<times> 'w"

section \<open>Retry with exponential backoff\<close>

text \<open>
  \<^verbatim>\<open>
  async function retryWithBackoff(fn, retries = MAX_RETRIES) {
    for (let i = 0; i < retries; i++) {
      try {
        return await fn();
      } catch (error) {
        if (i === retries - 1) throw error;
        const delay = RETRY_DELAY * Math.pow(2, i);
        await sleep(delay);
      }
    }
  }
  \<close>
  The same text is in \<open>trevee-supply-api-enhanced.js\<close> (\<open>MAX_RETRIES = 3\<close>,
  \<open>RETRY_DELAY = 1000\<close>) and in \<open>api/_lib/blockchain.js\<close> (\<open>MAX_RETRIES = 2\<close>,
  \<open>RETRY_DELAY = 500\<close>), so the module constant \<open>RETRY_DELAY\<close> is the first argument
  of the model. The function falls off the end of the loop when \<open>retries\<close> is not
  positive and then returns \<open>undefined\<close>: the result is \<open>Inr None\<close>. What the function
  did is recorded as a list of events: each call of \<open>fn\<close> and each \<open>sleep\<close> with its
  delay in milliseconds. Numbers are unbounded integers.
\<close>

datatype event = Attempt | Sleep int

function retry_loop ::
  "int \<Rightarrow> ('w, 'a) async \<Rightarrow> int \<Rightarrow> int \<Rightarrow> 'w \<Rightarrow> (thrown + 'a option) \<times> 'w \<times> event list"
where
  "retry_loop delay0 fn retries i w =
     (if i < retries then
        (case fn w of
           (Inr v, w') \<Rightarrow> (Inr (Some v), w', [Attempt])
         | (Inl error, w') \<Rightarrow>
             if i = retries - 1 then (Inl error, w', [Attempt])
             else (case retry_loop delay0 fn retries (i + 1) w' of
                     (r, w'', evs) \<Rightarrow> (r, w'', Attempt # Sleep (delay0 * 2 ^ nat i) # evs)))
      else (Inr None, w, []))"
  by pat_completeness auto
termination
  by (relation "measure (\<lambda>(delay0, fn, retries, i, w). nat (retries - i))") auto

declare retry_loop.simps [simp del]

definition retryWithBackoff ::
  "int \<Rightarrow> ('w, 'a) async \<Rightarrow> int \<Rightarrow> 'w \<Rightarrow> (thrown + 'a option) \<times> 'w \<times> event list"
where
  "retryWithBackoff delay0 fn retries w = retry_loop delay0 fn retries 0 w"

definition MAX_RETRIES :: int where "MAX_RETRIES = 3"
definition RETRY_DELAY :: int where "RETRY_DELAY = 1000"

definition MAX_RETRIES_lib :: int where "MAX_RETRIES_lib = 2"
definition RETRY_DELAY_lib :: int where "RETRY_DELAY_lib = 500"

text \<open>
  For the statements: what \<open>n\<close> calls of the operation in a row give (result and world
  after each call), and the events of a run of \<open>k + 1\<close> attempts whose first attempt has
  index \<open>i\<close>.
\<close>

fun outcomes :: "('w, 'a) async \<Rightarrow> nat \<Rightarrow> 'w \<Rightarrow> ((thrown + 'a) \<times> 'w) list" where
  "outcomes fn 0 w = []"
| "outcomes fn (Suc n) w = fn w # outcomes fn n (snd (fn w))"

definition failures :: "((thrown + 'a) \<times> 'w) list \<Rightarrow> nat" where
  "failures os = length (takeWhile (\<lambda>r. isl (fst r)) os)"

fun backoff_events :: "int \<Rightarrow> nat \<Rightarrow> nat \<Rightarrow> event list" where
  "backoff_events delay0 i 0 = [Attempt]"
| "backoff_events delay0 i (Suc k) = Attempt # Sleep (delay0 * 2 ^ i) # backoff_events delay0 (Suc i) k"

definition attempts :: "event list \<Rightarrow> nat" where
  "attempts evs = length (filter (\<lambda>e. e = Attempt) evs)"

section \<open>Endpoint fallback\<close>

text \<open>
  \<^verbatim>\<open>
  async function tryRPCEndpoints(rpcUrls, fn) {
    let lastError;
    for (const rpcUrl of rpcUrls) {
      try {
        return await fn(rpcUrl);
      } catch (error) {
        console.warn(`RPC endpoint ${rpcUrl} failed:`, error.message);
        lastError = error;
      }
    }
    throw lastError || new Error('All RPC endpoints failed');
  }
  \<close>
  The third component of the result lists the endpoints \<open>fn\<close> was called on, in order.
  The \<open>catch\<close> block reads \<open>error.message\<close> for the warning: when an endpoint rejects
  with \<open>undefined\<close> or \<open>null\<close> that read throws, and the \<open>TypeError\<close> leaves the function.
\<close>

fun tryRPCEndpoints_loop ::
  "(url \<Rightarrow> ('w, 'a) async) \<Rightarrow> url list \<Rightarrow> thrown \<Rightarrow> 'w \<Rightarrow> (thrown + 'a) \<times> 'w \<times> url list"
where
  "tryRPCEndpoints_loop fn [] lastError w =
     (Inl (if truthy_thrown lastError then lastError else Error ''All RPC endpoints failed''), w, [])"
| "tryRPCEndpoints_loop fn (rpcUrl # rest) lastError w =
     (case fn rpcUrl w of
        (Inr v, w') \<Rightarrow> (Inr v, w', [rpcUrl])
      | (Inl error, w') \<Rightarrow>
          (case error_message error of
             Inl typeError \<Rightarrow> (Inl typeError, w', [rpcUrl])
           | Inr message \<Rightarrow>
               (case tryRPCEndpoints_loop fn rest error w' of
                  (r, w'', tried) \<Rightarrow> (r, w'', rpcUrl # tried))))"

definition tryRPCEndpoints ::
  "url list \<Rightarrow> (url \<Rightarrow> ('w, 'a) async) \<Rightarrow> 'w \<Rightarrow> (thrown + 'a) \<times> 'w \<times> url list"
where
  "tryRPCEndpoints rpcUrls fn w = tryRPCEndpoints_loop fn rpcUrls Undefined w"

text \<open>
  What calling \<open>fn\<close> on every endpoint of the list in turn gives, and how many of these
  calls the loop gets past: those that reject with a value whose message can be read.
\<close>

fun endpoint_outcomes ::
  "(url \<Rightarrow> ('w, 'a) async) \<Rightarrow> url list \<Rightarrow> 'w \<Rightarrow> ((thrown + 'a) \<times> 'w) list"
where
  "endpoint_outcomes fn [] w = []"
| "endpoint_outcomes fn (rpcUrl # rest) w = fn rpcUrl w # endpoint_outcomes fn rest (snd (fn rpcUrl w))"

fun goes_on :: "thrown + 'a \<Rightarrow> bool" where
  "goes_on (Inl e) = (\<not> isl (error_message e))"
| "goes_on (Inr v) = False"

definition passed :: "((thrown + 'a) \<times> 'w) list \<Rightarrow> nat" where
  "passed os = length (takeWhile (\<lambda>r. goes_on (fst r)) os)"

text \<open>The closed form of the retry loop that the proofs compare it with.\<close>

definition retry_run ::
  "int \<Rightarrow> ('w, 'a) async \<Rightarrow> nat \<Rightarrow> nat \<Rightarrow> 'w \<Rightarrow> (thrown + 'a option) \<times> 'w \<times> event list"
where
  "retry_run delay0 fn j n w =
     (let os = outcomes fn n w; k = failures os in
      if k < n then (Inr (Some (projr (fst (os ! k)))), snd (os ! k), backoff_events delay0 j k)
      else (Inl (projl (fst (os ! (n - 1)))), snd (os ! (n - 1)), backoff_events delay0 j (n - 1)))"

section \<open>The library and the runtime\<close>

text \<open>
  The servers reach the chains through the \<open>ethers\<close> library and read the clock with
  \<open>Date.now()\<close>. Both are outside the repository, so they are parameters of the model:
  a contract read is an asynchronous operation on the world, chosen by the endpoint URL
  and the token address; \<open>ethers.formatUnits\<close> is a function from a \<open>BigInt\<close> and a
  number of decimals to a string. \<open>BigInt\<close> values are integers.
\<close>

record 'w runtime =
  date_now :: "'w \<Rightarrow> int"
  contract_totalSupply :: "url \<Rightarrow> address \<Rightarrow> 'w \<Rightarrow> (thrown + int) \<times> 'w"
  contract_balanceOf :: "url \<Rightarrow> address \<Rightarrow> address \<Rightarrow> 'w \<Rightarrow> (thrown + int) \<times> 'w"
  contract_decimals :: "url \<Rightarrow> address \<Rightarrow> 'w \<Rightarrow> (thrown + int) \<times> 'w"
  formatUnits :: "int \<Rightarrow> int \<Rightarrow> string"

record rpc_endpoints =
  rpc_ethereum :: "url list"
  rpc_sonic :: "url list"
  rpc_plasma :: "url list"

definition TOKEN_ADDRESS :: address where
  "TOKEN_ADDRESS = ''0xe90FE2DE4A415aD48B6DcEc08bA6ae98231948Ac''"

text \<open>
  The excluded addresses of \<open>trevee-supply-api-enhanced.js\<close> (lines 56 to 68) and of the
  basic server (the same six strings), then those of \<open>api/_lib/blockchain.js\<close>.
\<close>

definition EXCLUDED_ADDRESSES :: "address list" where
  "EXCLUDED_ADDRESSES =
     [''0x0000000000000000000000000000000000000000'',
      ''0x000000000000000000000000000000000000dEaD'',
      ''0x1Ae6DCBc88d6f81A7BCFcCC7198397D776F3592E'',
      ''0xE2a7De3C3190AFd79C49C8E8f2Fa30Ca78B97DFd'',
      ''0x7481b40c3453D0b5D9b8f82427c77C2eCAd397d1'',
      ''0x7481b40c3453D0b5D9b8f82427c77C2eCAd397d1'']"

definition EXCLUDED_ADDRESSES_lib :: "address list" where
  "EXCLUDED_ADDRESSES_lib =
     [''0x0000000000000000000000000000000000000000'',
      ''0x000000000000000000000000000000000000dEaD'',
      ''0x1Ae6DCBc88d6f81A7BCFcCC7198397D776F3592E'',
      ''0xE2a7De3C3190AFd79C49C8E8f2Fa30Ca78B97DFd'',
      ''0x7481b40c3453D0b5D9b8f82427c77C2eCAd397d1'',
      ''0x99fe40e501151e92f10ac13ea1c06083ee170363'']"

section \<open>One chain\<close>

text \<open>
  \<open>Promise.all\<close> over a list of calls: every call is issued, in list order; the result is
  the list of the values when all of them resolve, and a rejection otherwise. When several
  reject, JavaScript keeps the rejection that happens first in time; the model keeps the
  first in list order.
\<close>

fun promise_all :: "('w, 'a) async list \<Rightarrow> ('w, 'a list) async" where
  "promise_all [] w = (Inr [], w)"
| "promise_all (p # ps) w =
     (case p w of
        (r, w') \<Rightarrow>
          (case promise_all ps w' of
             (rs, w'') \<Rightarrow>
               ((case r of
                   Inl e \<Rightarrow> Inl e
                 | Inr v \<Rightarrow> (case rs of Inl e \<Rightarrow> Inl e | Inr vs \<Rightarrow> Inr (v # vs))), w'')))"

definition getTotalSupply :: "'w runtime \<Rightarrow> url \<Rightarrow> address \<Rightarrow> ('w, int) async" where
  "getTotalSupply rt rpcUrl tokenAddress = contract_totalSupply rt rpcUrl tokenAddress"

text \<open>
  \<^verbatim>\<open>
  const balancePromises = excludedAddresses.map(addr => contract.balanceOf(addr));
  const balances = await Promise.all(balancePromises);
  const totalExcluded = balances.reduce((sum, balance) => sum + balance, 0n);
  \<close>
\<close>

definition getExcludedBalance ::
  "'w runtime \<Rightarrow> url \<Rightarrow> address \<Rightarrow> address list \<Rightarrow> ('w, int) async"
where
  "getExcludedBalance rt rpcUrl tokenAddress excludedAddresses w =
     (case promise_all (map (\<lambda>addr. contract_balanceOf rt rpcUrl tokenAddress addr) excludedAddresses) w of
        (Inl e, w') \<Rightarrow> (Inl e, w')
      | (Inr balances, w') \<Rightarrow> (Inr (foldl (\<lambda>sum balance. sum + balance) 0 balances), w'))"

definition getDecimals :: "'w runtime \<Rightarrow> url \<Rightarrow> address \<Rightarrow> ('w, int) async" where
  "getDecimals rt rpcUrl tokenAddress = contract_decimals rt rpcUrl tokenAddress"

record chain_supply =
  chain :: string
  totalSupply :: int
  excludedBalance :: int
  circulatingSupply :: int

text \<open>
  What the servers do against one endpoint: the body of the basic server's
  \<open>getCirculatingSupplyForChain\<close>, which is also the function the other two servers hand
  to \<open>tryRPCEndpoints\<close>. The excluded list is the module's constant.
\<close>

definition chainSupplyAt ::
  "'w runtime \<Rightarrow> address list \<Rightarrow> string \<Rightarrow> url \<Rightarrow> ('w, chain_supply) async"
where
  "chainSupplyAt rt excluded chainName rpcUrl w =
     (case getTotalSupply rt rpcUrl TOKEN_ADDRESS w of
        (Inl e, w1) \<Rightarrow> (Inl e, w1)
      | (Inr supply, w1) \<Rightarrow>
          (case getExcludedBalance rt rpcUrl TOKEN_ADDRESS excluded w1 of
             (Inl e, w2) \<Rightarrow> (Inl e, w2)
           | (Inr excludedBal, w2) \<Rightarrow>
               (Inr \<lparr>chain = chainName, totalSupply = supply, excludedBalance = excludedBal,
                     circulatingSupply = supply - excludedBal\<rparr>, w2)))"

definition getCirculatingSupplyForChain_basic ::
  "'w runtime \<Rightarrow> string \<Rightarrow> url \<Rightarrow> ('w, chain_supply) async"
where
  "getCirculatingSupplyForChain_basic rt chainName rpcUrl =
     chainSupplyAt rt EXCLUDED_ADDRESSES chainName rpcUrl"

text \<open>
  \<^verbatim>\<open>
  return await retryWithBackoff(async () => {
    return await tryRPCEndpoints(rpcUrls, async (rpcUrl) => { ... });
  });
  \<close>
  in the enhanced server and in \<open>api/_lib/blockchain.js\<close>, each with its own constants.
\<close>

definition withFallback :: "url list \<Rightarrow> (url \<Rightarrow> ('w, 'a) async) \<Rightarrow> ('w, 'a) async" where
  "withFallback rpcUrls fn w = (case tryRPCEndpoints rpcUrls fn w of (r, w', tried) \<Rightarrow> (r, w'))"

definition getCirculatingSupplyForChain ::
  "'w runtime \<Rightarrow> string \<Rightarrow> url list \<Rightarrow> ('w, chain_supply option) async"
where
  "getCirculatingSupplyForChain rt chainName rpcUrls w =
     (case retryWithBackoff RETRY_DELAY
             (withFallback rpcUrls (chainSupplyAt rt EXCLUDED_ADDRESSES chainName)) MAX_RETRIES w of
        (r, w', evs) \<Rightarrow> (r, w'))"

definition getCirculatingSupplyForChain_lib ::
  "'w runtime \<Rightarrow> string \<Rightarrow> url list \<Rightarrow> ('w, chain_supply option) async"
where
  "getCirculatingSupplyForChain_lib rt chainName rpcUrls w =
     (case retryWithBackoff RETRY_DELAY_lib
             (withFallback rpcUrls (chainSupplyAt rt EXCLUDED_ADDRESSES_lib chainName)) MAX_RETRIES_lib w of
        (r, w', evs) \<Rightarrow> (r, w'))"

section \<open>All chains\<close>

record supply_totals =
  totals_circulatingSupply :: int
  totals_totalSupply :: int
  totals_excludedBalance :: int
  decimals :: int

record supply_metadata =
  fetchDuration :: int
  timestamp :: int

record supply_chains =
  ethereum :: chain_supply
  sonic :: chain_supply
  plasma :: chain_supply

record supply_data =
  chains :: supply_chains
  totals :: supply_totals
  metadata :: supply_metadata

text \<open>
  \<open>getAllChainsCirculatingSupply\<close> of the enhanced server (lines 258 to 297). The three
  chains are fetched with \<open>Promise.all\<close>, then the decimals, then the totals are summed.
  \<open>new Date().toISOString()\<close> is kept as the instant it prints. \<open>MAX_RETRIES\<close> is 3, so
  \<open>retryWithBackoff\<close> does not return \<open>undefined\<close> here; the model rejects in that case,
  as reading a property of \<open>undefined\<close> does.
\<close>

definition decimalsWithRetry :: "'w runtime \<Rightarrow> rpc_endpoints \<Rightarrow> ('w, int option) async" where
  "decimalsWithRetry rt eps w =
     (case retryWithBackoff RETRY_DELAY
             (withFallback (rpc_ethereum eps) (\<lambda>rpcUrl. getDecimals rt rpcUrl TOKEN_ADDRESS)) MAX_RETRIES w of
        (r, w', evs) \<Rightarrow> (r, w'))"

definition getAllChainsCirculatingSupply :: "'w runtime \<Rightarrow> rpc_endpoints \<Rightarrow> ('w, supply_data) async" where
  "getAllChainsCirculatingSupply rt eps w =
     (let startTime = date_now rt w in
      case promise_all [getCirculatingSupplyForChain rt ''Ethereum'' (rpc_ethereum eps),
                        getCirculatingSupplyForChain rt ''Sonic'' (rpc_sonic eps),
                        getCirculatingSupplyForChain rt ''Plasma'' (rpc_plasma eps)] w of
        (Inl e, w1) \<Rightarrow> (Inl e, w1)
      | (Inr results, w1) \<Rightarrow>
          (case decimalsWithRetry rt eps w1 of
             (Inl e, w2) \<Rightarrow> (Inl e, w2)
           | (Inr dec, w2) \<Rightarrow>
               (case (results, dec) of
                  ([Some eth, Some son, Some pla], Some d) \<Rightarrow>
                    (Inr \<lparr>chains = \<lparr>ethereum = eth, sonic = son, plasma = pla\<rparr>,
                          totals = \<lparr>totals_circulatingSupply =
                                      circulatingSupply eth + circulatingSupply son + circulatingSupply pla,
                                    totals_totalSupply = totalSupply eth + totalSupply son + totalSupply pla,
                                    totals_excludedBalance =
                                      excludedBalance eth + excludedBalance son + excludedBalance pla,
                                    decimals = d\<rparr>,
                          metadata = \<lparr>fetchDuration = date_now rt w2 - startTime,
                                      timestamp = date_now rt w2\<rparr>\<rparr>, w2)
                | _ \<Rightarrow> (Inl (Error ''TypeError''), w2))))"

text \<open>
  \<open>getAllChainsCirculatingSupply\<close> of \<open>api/_lib/blockchain.js\<close> (lines 124 to 162): the
  same, with that file's constants, and
  \<^verbatim>\<open>
  // Use Sonic as canonical source for total supply (50M TREVEE)
  const totalSupply = sonic.totalSupply;
  \<close>
\<close>

definition decimalsWithRetry_lib :: "'w runtime \<Rightarrow> rpc_endpoints \<Rightarrow> ('w, int option) async" where
  "decimalsWithRetry_lib rt eps w =
     (case retryWithBackoff RETRY_DELAY_lib
             (withFallback (rpc_ethereum eps) (\<lambda>rpcUrl. getDecimals rt rpcUrl TOKEN_ADDRESS)) MAX_RETRIES_lib w of
        (r, w', evs) \<Rightarrow> (r, w'))"

definition getAllChainsCirculatingSupply_lib :: "'w runtime \<Rightarrow> rpc_endpoints \<Rightarrow> ('w, supply_data) async" where
  "getAllChainsCirculatingSupply_lib rt eps w =
     (let startTime = date_now rt w in
      case promise_all [getCirculatingSupplyForChain_lib rt ''Ethereum'' (rpc_ethereum eps),
                        getCirculatingSupplyForChain_lib rt ''Sonic'' (rpc_sonic eps),
                        getCirculatingSupplyForChain_lib rt ''Plasma'' (rpc_plasma eps)] w of
        (Inl e, w1) \<Rightarrow> (Inl e, w1)
      | (Inr results, w1) \<Rightarrow>
          (case decimalsWithRetry_lib rt eps w1 of
             (Inl e, w2) \<Rightarrow> (Inl e, w2)
           | (Inr dec, w2) \<Rightarrow>
               (case (results, dec) of
                  ([Some eth, Some son, Some pla], Some d) \<Rightarrow>
                    (Inr \<lparr>chains = \<lparr>ethereum = eth, sonic = son, plasma = pla\<rparr>,
                          totals = \<lparr>totals_circulatingSupply =
                                      circulatingSupply eth + circulatingSupply son + circulatingSupply pla,
                                    totals_totalSupply = totalSupply son,
                                    totals_excludedBalance =
                                      excludedBalance eth + excludedBalance son + excludedBalance pla,
                                    decimals = d\<rparr>,
                          metadata = \<lparr>fetchDuration = date_now rt w2 - startTime,
                                      timestamp = date_now rt w2\<rparr>\<rparr>, w2)
                | _ \<Rightarrow> (Inl (Error ''TypeError''), w2))))"

definition formatSupply :: "'w runtime \<Rightarrow> int \<Rightarrow> int \<Rightarrow> string" where
  "formatSupply rt supplyBigInt dec = formatUnits rt supplyBigInt dec"

section \<open>The cache of the enhanced server\<close>

text \<open>
  \<^verbatim>\<open>
  const CACHE_TTL = 60000;
  const STALE_WHILE_REVALIDATE = 300000;
  let cache = {
    circulating: { value: null, timestamp: 0, error: null },
    total: { value: null, timestamp: 0, error: null },
    detailed: { value: null, timestamp: 0, error: null }
  };
  \<close>
  A cached value is \<open>null\<close>, a string or the data of a fetch. \<open>!cached.value\<close> tests
  truthiness: \<open>null\<close> and the empty string are falsy.
\<close>

datatype cache_value = NullValue | TextValue string | DataValue supply_data

fun truthy :: "cache_value \<Rightarrow> bool" where
  "truthy NullValue = False"
| "truthy (TextValue s) = (s \<noteq> [])"
| "truthy (DataValue d) = True"

record cache_entry =
  entry_value :: cache_value
  entry_timestamp :: int
  entry_error :: "thrown option"

datatype cache_key = Circulating | Total | Detailed

type_synonym cache = "cache_key \<Rightarrow> cache_entry"

definition CACHE_TTL :: int where "CACHE_TTL = 60000"
definition STALE_WHILE_REVALIDATE :: int where "STALE_WHILE_REVALIDATE = 300000"

definition empty_cache :: cache where
  "empty_cache = (\<lambda>cacheKey. \<lparr>entry_value = NullValue, entry_timestamp = 0, entry_error = None\<rparr>)"

datatype x_cache = HIT | STALE | MISS | ERROR_FALLBACK

text \<open>The functions read the clock themselves; \<open>now\<close> is what \<open>Date.now()\<close> gives.\<close>

definition isCacheFresh :: "cache \<Rightarrow> cache_key \<Rightarrow> int \<Rightarrow> bool" where
  "isCacheFresh cache cacheKey now =
     (let cached = cache cacheKey in
      if \<not> truthy (entry_value cached) then False
      else (let age = now - entry_timestamp cached in age < CACHE_TTL))"

definition isCacheStale :: "cache \<Rightarrow> cache_key \<Rightarrow> int \<Rightarrow> bool" where
  "isCacheStale cache cacheKey now =
     (let cached = cache cacheKey in
      if \<not> truthy (entry_value cached) then False
      else (let age = now - entry_timestamp cached in age \<ge> CACHE_TTL \<and> age < STALE_WHILE_REVALIDATE))"

definition getCacheStatus :: "cache \<Rightarrow> cache_key \<Rightarrow> int \<Rightarrow> x_cache" where
  "getCacheStatus cache cacheKey now =
     (if isCacheFresh cache cacheKey now then HIT
      else if isCacheStale cache cacheKey now then STALE
      else MISS)"

definition updateCache :: "cache \<Rightarrow> cache_key \<Rightarrow> cache_value \<Rightarrow> int \<Rightarrow> cache" where
  "updateCache cache cacheKey v now =
     cache(cacheKey := \<lparr>entry_value = v, entry_timestamp = now, entry_error = None\<rparr>)"

definition getCachedValue :: "cache \<Rightarrow> cache_key \<Rightarrow> cache_value" where
  "getCachedValue cache cacheKey =
     (let cached = cache cacheKey in
      if \<not> truthy (entry_value cached) then NullValue else entry_value cached)"

text \<open>The order of the three zones, for the statement that a status never moves back.\<close>

fun zone :: "x_cache \<Rightarrow> nat" where
  "zone HIT = 0"
| "zone STALE = 1"
| "zone MISS = 2"
| "zone ERROR_FALLBACK = 3"

section \<open>The endpoints of the enhanced server\<close>

text \<open>
  A response has a status (200 unless \<open>res.status\<close> sets it), the \<open>Content-Type\<close>, the
  \<open>X-Cache\<close> and \<open>X-Cache-Age\<close> headers when set (the age in whole seconds), and a body:
  what \<open>res.send\<close> was given, or the document given to \<open>res.json\<close>.
\<close>

record formatted_chain =
  f_totalSupply :: string
  f_excludedBalance :: string
  f_circulatingSupply :: string

record formatted_totals =
  ft_totalSupply :: string
  ft_excludedBalance :: string
  ft_circulatingSupply :: string
  ft_decimals :: int

record detailed_response =
  r_timestamp :: int
  r_fetchDuration :: int
  r_tokenAddress :: address
  r_ethereum :: formatted_chain
  r_sonic :: formatted_chain
  r_plasma :: formatted_chain
  r_totals :: formatted_totals
  r_excludedAddresses :: "address list"
  r_circulatingAge :: "int option"
  r_totalAge :: "int option"
  r_detailedAge :: "int option"

datatype body = Send cache_value | Json_detailed detailed_response | Json_error "string option"

record response =
  status :: nat
  content_type :: string
  x_cache :: "x_cache option"
  x_cache_age :: "int option"
  body :: body

text \<open>
  What handling one request gives: the response, or the value thrown when an exception
  leaves the handler; the cache and the world afterwards; and whether the handler started
  a refresh in the background (\<open>getAllChainsCirculatingSupply().then(...).catch(...)\<close>,
  not awaited). Requests are handled one at a time; the clock is read from the world, and
  code that does not await leaves the world as it is.
\<close>

record 'w handled =
  reply :: "thrown + response"
  cache_after :: cache
  world_after :: 'w
  refresh_started :: bool

definition formatChain :: "'w runtime \<Rightarrow> chain_supply \<Rightarrow> int \<Rightarrow> formatted_chain" where
  "formatChain rt c dec =
     \<lparr>f_totalSupply = formatSupply rt (totalSupply c) dec,
      f_excludedBalance = formatSupply rt (excludedBalance c) dec,
      f_circulatingSupply = formatSupply rt (circulatingSupply c) dec\<rparr>"

definition cacheAge :: "cache \<Rightarrow> cache_key \<Rightarrow> int \<Rightarrow> int option" where
  "cacheAge cache cacheKey now =
     (if entry_timestamp (cache cacheKey) \<noteq> 0
      then Some ((now - entry_timestamp (cache cacheKey)) div 1000) else None)"

definition formatDetailedResponse :: "'w runtime \<Rightarrow> cache \<Rightarrow> int \<Rightarrow> supply_data \<Rightarrow> detailed_response" where
  "formatDetailedResponse rt cache now data =
     \<lparr>r_timestamp = timestamp (metadata data),
      r_fetchDuration = fetchDuration (metadata data),
      r_tokenAddress = TOKEN_ADDRESS,
      r_ethereum = formatChain rt (ethereum (chains data)) (decimals (totals data)),
      r_sonic = formatChain rt (sonic (chains data)) (decimals (totals data)),
      r_plasma = formatChain rt (plasma (chains data)) (decimals (totals data)),
      r_totals =
        \<lparr>ft_totalSupply = formatSupply rt (totals_totalSupply (totals data)) (decimals (totals data)),
         ft_excludedBalance = formatSupply rt (totals_excludedBalance (totals data)) (decimals (totals data)),
         ft_circulatingSupply = formatSupply rt (totals_circulatingSupply (totals data)) (decimals (totals data)),
         ft_decimals = decimals (totals data)\<rparr>,
      r_excludedAddresses = EXCLUDED_ADDRESSES,
      r_circulatingAge = cacheAge cache Circulating now,
      r_totalAge = cacheAge cache Total now,
      r_detailedAge = cacheAge cache Detailed now\<rparr>"

text \<open>The three \<open>updateCache\<close> calls that follow a fetch in the two plain-text endpoints.\<close>

definition updateAll :: "'w runtime \<Rightarrow> cache \<Rightarrow> supply_data \<Rightarrow> int \<Rightarrow> cache" where
  "updateAll rt cache data now =
     (let cache1 = updateCache cache Circulating
                     (TextValue (formatSupply rt (totals_circulatingSupply (totals data)) (decimals (totals data)))) now;
          cache2 = updateCache cache1 Total
                     (TextValue (formatSupply rt (totals_totalSupply (totals data)) (decimals (totals data)))) now
      in updateCache cache2 Detailed (DataValue data) now)"

text \<open>
  The refresh in the background, when it runs: on success the three entries are written,
  on failure the error is logged and nothing else happens.
\<close>

definition background_refresh :: "'w runtime \<Rightarrow> rpc_endpoints \<Rightarrow> cache \<Rightarrow> 'w \<Rightarrow> cache \<times> 'w" where
  "background_refresh rt eps cache w =
     (case getAllChainsCirculatingSupply rt eps w of
        (Inr data, w') \<Rightarrow> (updateAll rt cache data (date_now rt w'), w')
      | (Inl error, w') \<Rightarrow> (cache, w'))"

text \<open>\<open>app.get('/api/circulating-supply', ...)\<close>, lines 315 to 383.\<close>

definition get_circulating_supply :: "'w runtime \<Rightarrow> rpc_endpoints \<Rightarrow> cache \<Rightarrow> 'w \<Rightarrow> 'w handled" where
  "get_circulating_supply rt eps cache w =
     (let now = date_now rt w; cacheStatus = getCacheStatus cache Circulating now in
      if cacheStatus = HIT then
        \<lparr>reply = Inr \<lparr>status = 200, content_type = ''text/plain'', x_cache = Some HIT,
                      x_cache_age = Some ((now - entry_timestamp (cache Circulating)) div 1000),
                      body = Send (getCachedValue cache Circulating)\<rparr>,
         cache_after = cache, world_after = w, refresh_started = False\<rparr>
      else if cacheStatus = STALE then
        \<lparr>reply = Inr \<lparr>status = 200, content_type = ''text/plain'', x_cache = Some STALE,
                      x_cache_age = Some ((now - entry_timestamp (cache Circulating)) div 1000),
                      body = Send (getCachedValue cache Circulating)\<rparr>,
         cache_after = cache, world_after = w, refresh_started = True\<rparr>
      else
        (case getAllChainsCirculatingSupply rt eps w of
           (Inr data, w') \<Rightarrow>
             (let circulatingSup = formatSupply rt (totals_circulatingSupply (totals data)) (decimals (totals data)) in
              \<lparr>reply = Inr \<lparr>status = 200, content_type = ''text/plain'', x_cache = Some MISS,
                            x_cache_age = None, body = Send (TextValue circulatingSup)\<rparr>,
               cache_after = updateAll rt cache data (date_now rt w'),
               world_after = w', refresh_started = False\<rparr>)
         | (Inl error, w') \<Rightarrow>
             (let cachedValue = getCachedValue cache Circulating in
              if truthy cachedValue then
                \<lparr>reply = Inr \<lparr>status = 200, content_type = ''text/plain'', x_cache = Some ERROR_FALLBACK,
                              x_cache_age = None, body = Send cachedValue\<rparr>,
                 cache_after = cache, world_after = w', refresh_started = False\<rparr>
              else
                \<lparr>reply = Inr \<lparr>status = 500, content_type = ''text/plain'', x_cache = None,
                              x_cache_age = None, body = Send (TextValue ''0'')\<rparr>,
                 cache_after = cache, world_after = w', refresh_started = False\<rparr>)))"

text \<open>\<open>app.get('/api/total-supply', ...)\<close>, lines 389 to 439.\<close>

definition get_total_supply :: "'w runtime \<Rightarrow> rpc_endpoints \<Rightarrow> cache \<Rightarrow> 'w \<Rightarrow> 'w handled" where
  "get_total_supply rt eps cache w =
     (let now = date_now rt w; cacheStatus = getCacheStatus cache Total now in
      if cacheStatus = HIT then
        \<lparr>reply = Inr \<lparr>status = 200, content_type = ''text/plain'', x_cache = Some HIT,
                      x_cache_age = None, body = Send (getCachedValue cache Total)\<rparr>,
         cache_after = cache, world_after = w, refresh_started = False\<rparr>
      else if cacheStatus = STALE then
        \<lparr>reply = Inr \<lparr>status = 200, content_type = ''text/plain'', x_cache = Some STALE,
                      x_cache_age = None, body = Send (getCachedValue cache Total)\<rparr>,
         cache_after = cache, world_after = w, refresh_started = True\<rparr>
      else
        (case getAllChainsCirculatingSupply rt eps w of
           (Inr data, w') \<Rightarrow>
             (let totalSup = formatSupply rt (totals_totalSupply (totals data)) (decimals (totals data)) in
              \<lparr>reply = Inr \<lparr>status = 200, content_type = ''text/plain'', x_cache = Some MISS,
                            x_cache_age = None, body = Send (TextValue totalSup)\<rparr>,
               cache_after = updateAll rt cache data (date_now rt w'),
               world_after = w', refresh_started = False\<rparr>)
         | (Inl error, w') \<Rightarrow>
             (let cachedValue = getCachedValue cache Total in
              if truthy cachedValue then
                \<lparr>reply = Inr \<lparr>status = 200, content_type = ''text/plain'', x_cache = Some ERROR_FALLBACK,
                              x_cache_age = None, body = Send cachedValue\<rparr>,
                 cache_after = cache, world_after = w', refresh_started = False\<rparr>
              else
                \<lparr>reply = Inr \<lparr>status = 500, content_type = ''text/plain'', x_cache = None,
                              x_cache_age = None, body = Send (TextValue ''0'')\<rparr>,
                 cache_after = cache, world_after = w', refresh_started = False\<rparr>)))"

text \<open>
  \<open>app.get('/api/circulating-supply/detailed', ...)\<close>, lines 445 to 468:
  \<^verbatim>\<open>
  if (cacheStatus === 'HIT' || cacheStatus === 'STALE') {
    const cached = getCachedValue('detailed');
    if (cached) {
      const response = formatDetailedResponse(cached);
      res.set('X-Cache', cacheStatus);
      return res.json(response);
    }
  }
  try {
    const data = await getAllChainsCirculatingSupply();
    updateCache('detailed', data);
    const response = formatDetailedResponse(data);
    res.set('X-Cache', 'MISS');
    res.json(response);
  } catch (error) {
    res.status(500).json({ error: error.message });
  }
  \<close>
  \<open>formatDetailedResponse\<close> reads \<open>data.chains.ethereum\<close>, a \<open>TypeError\<close> when the cached
  value is a string.
\<close>

definition get_detailed :: "'w runtime \<Rightarrow> rpc_endpoints \<Rightarrow> cache \<Rightarrow> 'w \<Rightarrow> 'w handled" where
  "get_detailed rt eps cache w =
     (let now = date_now rt w; cacheStatus = getCacheStatus cache Detailed now in
      if (cacheStatus = HIT \<or> cacheStatus = STALE) \<and> truthy (getCachedValue cache Detailed) then
        \<lparr>reply =
           (case getCachedValue cache Detailed of
              DataValue cached \<Rightarrow>
                Inr \<lparr>status = 200, content_type = ''application/json'', x_cache = Some cacheStatus,
                     x_cache_age = None,
                     body = Json_detailed (formatDetailedResponse rt cache now cached)\<rparr>
            | _ \<Rightarrow> Inl (Error ''TypeError'')),
         cache_after = cache, world_after = w, refresh_started = False\<rparr>
      else
        (case getAllChainsCirculatingSupply rt eps w of
           (Inr data, w') \<Rightarrow>
             (let cache' = updateCache cache Detailed (DataValue data) (date_now rt w') in
              \<lparr>reply = Inr \<lparr>status = 200, content_type = ''application/json'', x_cache = Some MISS,
                            x_cache_age = None,
                            body = Json_detailed (formatDetailedResponse rt cache' (date_now rt w') data)\<rparr>,
               cache_after = cache', world_after = w', refresh_started = False\<rparr>)
         | (Inl error, w') \<Rightarrow>
             \<lparr>reply =
                (case error_message error of
                   Inl t \<Rightarrow> Inl t
                 | Inr m \<Rightarrow>
                     Inr \<lparr>status = 500, content_type = ''application/json'', x_cache = None,
                          x_cache_age = None, body = Json_error m\<rparr>),
              cache_after = cache, world_after = w', refresh_started = False\<rparr>))"

section \<open>The rendering of \<open>ethers.formatUnits\<close>\<close>

text \<open>
  \<open>formatSupply\<close> is \<open>ethers.formatUnits(supplyBigInt, decimals)\<close>. The function belongs to
  the \<open>ethers\<close> library (version 6, which the servers use: \<open>ethers.JsonRpcProvider\<close>,
  native \<open>BigInt\<close>), not to the repository. The examples below need its result on concrete
  values, so its rendering of a fixed-point value is written out here after the library
  (\<open>toString\<close> in \<open>fixednumber.ts\<close>):
  \<^verbatim>\<open>
  let negative = "";
  if (val < BN_0) { negative = "-"; val *= BN_N1; }
  let str = val.toString();
  if (decimals === 0) { return (negative + str); }
  while (str.length <= decimals) { str = Zeros + str; }          // Zeros = "0000"
  const index = str.length - decimals;
  str = str.substring(0, index) + "." + str.substring(index);
  while (str[0] === "0" && str[1] !== ".") { str = str.substring(1); }
  while (str[str.length - 1] === "0" && str[str.length - 2] !== ".") {
    str = str.substring(0, str.length - 1);
  }
  return (negative + str);
  \<close>
  The library throws on a value of more than 512 bits and on a number of decimals it
  does not support; these checks are left out, so the definition is the library's
  function only where the library returns. The examples format sums of three
  \<open>uint256\<close> at 18 decimals.
\<close>

definition digit_char :: "nat \<Rightarrow> char" where
  "digit_char n = ''0123456789'' ! n"

fun bigint_toString :: "nat \<Rightarrow> string" where
  "bigint_toString n =
     (if n < 10 then [digit_char n] else bigint_toString (n div 10) @ [digit_char (n mod 10)])"

declare bigint_toString.simps [simp del]

function pad_zeros :: "string \<Rightarrow> nat \<Rightarrow> string" where
  "pad_zeros str dec = (if length str \<le> dec then pad_zeros (''0000'' @ str) dec else str)"
  by pat_completeness auto
termination
  by (relation "measure (\<lambda>(str, dec). Suc dec - length str)") auto

declare pad_zeros.simps [simp del]

text \<open>
  The first trimming loop; the second is the same loop read from the other end of the
  string.
\<close>

fun trim_zeros :: "string \<Rightarrow> string" where
  "trim_zeros [] = []"
| "trim_zeros [c] = (if c = CHR ''0'' then [] else [c])"
| "trim_zeros (c0 # c1 # rest) =
     (if c0 = CHR ''0'' \<and> c1 \<noteq> CHR ''.'' then trim_zeros (c1 # rest) else c0 # c1 # rest)"

definition ethers_formatUnits :: "int \<Rightarrow> int \<Rightarrow> string" where
  "ethers_formatUnits val unit =
     (let negative = (if val < 0 then ''-'' else []);
          str = bigint_toString (nat \<bar>val\<bar>);
          dec = nat unit
      in if dec = 0 then negative @ str
         else
           (let padded = pad_zeros str dec;
                index = length padded - dec;
                pointed = take index padded @ ''.'' @ drop index padded;
                whole_trimmed = trim_zeros pointed;
                trimmed = rev (trim_zeros (rev whole_trimmed))
            in negative @ trimmed))"

section \<open>Concrete worlds for the examples\<close>

text \<open>
  A runtime whose world is the clock: a read of a contract answers at once, as a function
  of the time, the endpoint and the address, and leaves the clock where it is.
\<close>

definition clock_runtime ::
  "(int \<Rightarrow> url \<Rightarrow> thrown + int) \<Rightarrow> (int \<Rightarrow> url \<Rightarrow> address \<Rightarrow> thrown + int) \<Rightarrow>
   (int \<Rightarrow> url \<Rightarrow> thrown + int) \<Rightarrow> (int \<Rightarrow> int \<Rightarrow> string) \<Rightarrow> int runtime"
where
  "clock_runtime tot bal dec fmt =
     \<lparr>date_now = (\<lambda>w. w),
      contract_totalSupply = (\<lambda>rpcUrl token w. (tot w rpcUrl, w)),
      contract_balanceOf = (\<lambda>rpcUrl token addr w. (bal w rpcUrl addr, w)),
      contract_decimals = (\<lambda>rpcUrl token w. (dec w rpcUrl, w)),
      formatUnits = fmt\<rparr>"

text \<open>The endpoint lists of the enhanced server when no environment variable is set.\<close>

definition default_endpoints :: rpc_endpoints where
  "default_endpoints =
     \<lparr>rpc_ethereum = [''https://eth.llamarpc.com'', ''https://rpc.ankr.com/eth'',
                      ''https://ethereum.publicnode.com''],
      rpc_sonic = [''https://rpc.soniclabs.com''],
      rpc_plasma = [''https://rpc.plasma.to'', ''https://plasma.drpc.org'']\<rparr>"

text \<open>
  The chains of the end-to-end example: Ethereum has a total of 500000000 and 50000000 in
  excluded addresses (all of it held by the Ethereum DAO), Sonic 300000000 and 30000000,
  Plasma 200000000 and 20000000, each multiplied by \<open>scale\<close>; 18 decimals.
\<close>

definition example_total :: "int \<Rightarrow> url \<Rightarrow> thrown + int" where
  "example_total scale rpcUrl =
     (if rpcUrl \<in> set (rpc_ethereum default_endpoints) then Inr (500000000 * scale)
      else if rpcUrl \<in> set (rpc_sonic default_endpoints) then Inr (300000000 * scale)
      else Inr (200000000 * scale))"

definition example_balance :: "int \<Rightarrow> url \<Rightarrow> address \<Rightarrow> thrown + int" where
  "example_balance scale rpcUrl addr =
     (if addr \<noteq> ''0x1Ae6DCBc88d6f81A7BCFcCC7198397D776F3592E'' then Inr 0
      else if rpcUrl \<in> set (rpc_ethereum default_endpoints) then Inr (50000000 * scale)
      else if rpcUrl \<in> set (rpc_sonic default_endpoints) then Inr (30000000 * scale)
      else Inr (20000000 * scale))"

definition example_runtime :: "int \<Rightarrow> int runtime" where
  "example_runtime scale =
     clock_runtime (\<lambda>w. example_total scale) (\<lambda>w. example_balance scale) (\<lambda>w rpcUrl. Inr 18)
       ethers_formatUnits"

text \<open>
  Two histories, with the amounts of the example in whole tokens of 18 decimals: chains
  whose nodes all go down at time 300000, and chains whose supplies double at that time.
\<close>

definition outage_runtime :: "int runtime" where
  "outage_runtime =
     clock_runtime
       (\<lambda>w rpcUrl. if w < 300000 then example_total (10 ^ 18) rpcUrl else Inl (Error ''down''))
       (\<lambda>w rpcUrl addr. if w < 300000 then example_balance (10 ^ 18) rpcUrl addr else Inl (Error ''down''))
       (\<lambda>w rpcUrl. if w < 300000 then Inr 18 else Inl (Error ''down''))
       ethers_formatUnits"

definition growing_runtime :: "int runtime" where
  "growing_runtime =
     clock_runtime (\<lambda>w. example_total (if w < 300000 then 10 ^ 18 else 2 * 10 ^ 18))
       (\<lambda>w. example_balance (if w < 300000 then 10 ^ 18 else 2 * 10 ^ 18))
       (\<lambda>w rpcUrl. Inr 18) ethers_formatUnits"

text \<open>What a fetch of the example's chains gives at time \<open>now\<close>, each amount times \<open>scale\<close>.\<close>

definition example_data :: "int \<Rightarrow> int \<Rightarrow> supply_data" where
  "example_data scale now =
     \<lparr>chains =
        \<lparr>ethereum = \<lparr>chain = ''Ethereum'', totalSupply = 500000000 * scale,
                      excludedBalance = 50000000 * scale, circulatingSupply = 450000000 * scale\<rparr>,
         sonic = \<lparr>chain = ''Sonic'', totalSupply = 300000000 * scale,
                   excludedBalance = 30000000 * scale, circulatingSupply = 270000000 * scale\<rparr>,
         plasma = \<lparr>chain = ''Plasma'', totalSupply = 200000000 * scale,
                    excludedBalance = 20000000 * scale, circulatingSupply = 180000000 * scale\<rparr>\<rparr>,
      totals = \<lparr>totals_circulatingSupply = 900000000 * scale, totals_totalSupply = 1000000000 * scale,
                totals_excludedBalance = 100000000 * scale, decimals = 18\<rparr>,
      metadata = \<lparr>fetchDuration = 0, timestamp = now\<rparr>\<rparr>"

text \<open>The cache after a fetch of those chains, in whole tokens, at time 1000.\<close>

definition warm_cache :: cache where
  "warm_cache =
     (\<lambda>cacheKey. case cacheKey of
        Circulating \<Rightarrow> \<lparr>entry_value = TextValue ''900000000.0'', entry_timestamp = 1000, entry_error = None\<rparr>
      | Total \<Rightarrow> \<lparr>entry_value = TextValue ''1000000000.0'', entry_timestamp = 1000, entry_error = None\<rparr>
      | Detailed \<Rightarrow> \<lparr>entry_value = DataValue (example_data (10 ^ 18) 1000), entry_timestamp = 1000,
                      entry_error = None\<rparr>)"

text \<open>An operation that fails twice and then succeeds; the world counts its calls.\<close>

definition flaky :: "(nat, int) async" where
  "flaky w = (if w < 2 then Inl (Error ''timeout'') else Inr 7, Suc w)"

text \<open>An endpoint operation: only the endpoint \<open>''c''\<close> answers.\<close>

definition only_c :: "url \<Rightarrow> (nat, int) async" where
  "only_c rpcUrl w = (if rpcUrl = ''c'' then Inr 7 else Inl (Error (''no '' @ rpcUrl)), Suc w)"

text \<open>The closed form of the fallback loop that the proofs compare it with.\<close>

definition fallback_run ::
  "(url \<Rightarrow> ('w, 'a) async) \<Rightarrow> url list \<Rightarrow> thrown \<Rightarrow> 'w \<Rightarrow> (thrown + 'a) \<times> 'w \<times> url list"
where
  "fallback_run fn urls lastError w =
     (let os = endpoint_outcomes fn urls w; k = passed os in
      if k < length urls
      then ((case fst (os ! k) of Inr v \<Rightarrow> Inr v | Inl e \<Rightarrow> Inl (Error ''TypeError'')),
            snd (os ! k), take (Suc k) urls)
      else (Inl (let e = (if urls = [] then lastError else projl (fst (last os)))
                 in if truthy_thrown e then e else Error ''All RPC endpoints failed''),
            (if urls = [] then w else snd (last os)), urls))"

text \<open>Operations that reject with \<open>0\<close>, and with \<open>null\<close>, on every endpoint.\<close>

definition rejects_zero :: "url \<Rightarrow> (nat, int) async" where
  "rejects_zero rpcUrl w = (Inl (Num 0), Suc w)"

definition rejects_null :: "url \<Rightarrow> (nat, int) async" where
  "rejects_null rpcUrl w = (Inl Null, Suc w)"

text \<open>
  A chain with a total supply of 1000 on which the address that is listed twice holds 100
  and no other address holds anything.
\<close>

definition plasma_dao_runtime :: "int runtime" where
  "plasma_dao_runtime =
     clock_runtime (\<lambda>w rpcUrl. Inr 1000)
       (\<lambda>w rpcUrl addr. Inr (if addr = ''0x7481b40c3453D0b5D9b8f82427c77C2eCAd397d1'' then 100 else 0))
       (\<lambda>w rpcUrl. Inr 18) ethers_formatUnits"

section \<open>Properties of the retry wrapper\<close>

lemma retry_loop_done: "retries \<le> i \<Longrightarrow> retry_loop d fn retries i w = (Inr None, w, [])"
  by (simp add: retry_loop.simps)

lemma retry_loop_success:
  "i < retries \<Longrightarrow> fn w = (Inr v, w') \<Longrightarrow> retry_loop d fn retries i w = (Inr (Some v), w', [Attempt])"
  by (simp add: retry_loop.simps[of d fn retries i w])

lemma retry_loop_last_failure:
  "i = retries - 1 \<Longrightarrow> fn w = (Inl e, w') \<Longrightarrow> retry_loop d fn retries i w = (Inl e, w', [Attempt])"
  by (simp add: retry_loop.simps[of d fn retries "retries - 1" w])

lemma retry_loop_failure:
  "i < retries - 1 \<Longrightarrow> fn w = (Inl e, w') \<Longrightarrow>
   retry_loop d fn retries i w =
     (fst (retry_loop d fn retries (i + 1) w'), fst (snd (retry_loop d fn retries (i + 1) w')),
      Attempt # Sleep (d * 2 ^ nat i) # snd (snd (retry_loop d fn retries (i + 1) w')))"
  by (simp add: retry_loop.simps[of d fn retries i w] split: prod.splits)

lemma retry_loop_run:
  "retry_loop d fn (int j + int (Suc m)) (int j) w = retry_run d fn j (Suc m) w"
proof (induction m arbitrary: j w)
  case 0
  show ?case
  proof (cases "fn w")
    case (Pair r w')
    then show ?thesis
      by (cases r) (simp_all add: retry_loop_success retry_loop_last_failure retry_run_def failures_def)
  qed
next
  case (Suc m)
  show ?case
  proof (cases "fn w")
    case (Pair r w')
    show ?thesis
    proof (cases r)
      case (Inr v)
      with Pair show ?thesis
        by (simp add: retry_loop_success retry_run_def failures_def)
    next
      case (Inl e)
      have step: "int j + 1 = int (Suc j)" by simp
      have tot: "int j + int (Suc (Suc m)) = int (Suc j) + int (Suc m)" by simp
      have "retry_loop d fn (int j + int (Suc (Suc m))) (int j) w =
            (fst (retry_run d fn (Suc j) (Suc m) w'), fst (snd (retry_run d fn (Suc j) (Suc m) w')),
             Attempt # Sleep (d * 2 ^ j) # snd (snd (retry_run d fn (Suc j) (Suc m) w')))"
        using Pair Inl retry_loop_failure[of "int j" "int j + int (Suc (Suc m))" fn w e w' d]
        by (simp only: step tot Suc.IH) simp
      also have "\<dots> = retry_run d fn j (Suc (Suc m)) w"
        using Pair Inl by (simp add: retry_run_def failures_def Let_def)
      finally show ?thesis .
    qed
  qed
qed

lemma retryWithBackoff_run:
  assumes "1 \<le> retries"
  shows "retryWithBackoff d fn retries w = retry_run d fn 0 (nat retries) w"
proof -
  obtain m where m: "nat retries = Suc m"
    using assms by (cases "nat retries") auto
  then have "retries = int 0 + int (Suc m)" using assms by linarith
  then show ?thesis
    using retry_loop_run[of d fn 0 m w] m by (simp add: retryWithBackoff_def)
qed

lemma length_outcomes [simp]: "length (outcomes fn n w) = n"
  by (induction n arbitrary: w) auto

lemma outcomes_nth_call: "j < n \<Longrightarrow> \<exists>w0. outcomes fn n w ! j = fn w0"
proof (induction n arbitrary: w j)
  case 0
  then show ?case by simp
next
  case (Suc n)
  then show ?case by (cases j) auto
qed

lemma failures_le: "failures os \<le> length os"
  by (simp add: failures_def length_takeWhile_le)

lemma failures_isl: "j < failures os \<Longrightarrow> isl (fst (os ! j))"
  unfolding failures_def by (metis nth_mem set_takeWhileD takeWhile_nth)

lemma failures_first_success: "failures os < length os \<Longrightarrow> \<not> isl (fst (os ! failures os))"
  unfolding failures_def by (rule nth_length_takeWhile)

lemma backoff_events_concat:
  "backoff_events d i k = concat (map (\<lambda>j. [Attempt, Sleep (d * 2 ^ j)]) [i..<i + k]) @ [Attempt]"
proof (induction k arbitrary: i)
  case 0
  show ?case by simp
next
  case (Suc k)
  have "[i..<i + Suc k] = i # [Suc i..<Suc i + k]"
    by (simp add: upt_conv_Cons)
  then show ?case using Suc.IH[of "Suc i"] by simp
qed

lemma backoff_events_concat0:
  "backoff_events d 0 k = concat (map (\<lambda>j. [Attempt, Sleep (d * 2 ^ j)]) [0..<k]) @ [Attempt]"
  using backoff_events_concat[of d 0 k] by simp

lemma attempts_backoff_events [simp]: "attempts (backoff_events d i k) = Suc k"
  by (induction k arbitrary: i) (simp_all add: attempts_def)

text \<open>
  C5. For every operation, every \<open>maxAttempts \<ge> 1\<close> and every base delay, the retry
  wrapper calls the operation at most \<open>maxAttempts\<close> times; its events are the attempts
  with a sleep of \<open>baseDelay * 2 ^ i\<close> between attempt \<open>i\<close> and attempt \<open>i + 1\<close>,
  counted from 0, and nothing else; it stops at the first attempt that succeeds and
  returns its result; and when all \<open>maxAttempts\<close> attempts fail it rejects with the
  error of the last attempt, as it is.
\<close>

theorem retryWithBackoff_backoff:
  assumes "1 \<le> maxAttempts"
  shows "let n = nat maxAttempts; os = outcomes fn n w; k = failures os in
         case retryWithBackoff baseDelay fn maxAttempts w of
           (r, w', evs) \<Rightarrow>
             attempts evs \<le> n \<and>
             (\<forall>j<k. isl (fst (os ! j))) \<and>
             evs = concat (map (\<lambda>i. [Attempt, Sleep (baseDelay * 2 ^ i)]) [0..<attempts evs - 1]) @ [Attempt] \<and>
             (if k < n then attempts evs = Suc k \<and> (\<exists>v. os ! k = (Inr v, w') \<and> r = Inr (Some v))
              else attempts evs = n \<and> (\<exists>e. os ! (n - 1) = (Inl e, w') \<and> r = Inl e))"
proof -
  define n where "n = nat maxAttempts"
  define os where "os = outcomes fn n w"
  define k where "k = failures os"
  have n_pos: "0 < n" using assms by (simp add: n_def)
  have len: "length os = n" by (simp add: os_def)
  have k_le: "k \<le> n" using failures_le[of os] len by (simp add: k_def)
  have run: "retryWithBackoff baseDelay fn maxAttempts w = retry_run baseDelay fn 0 n w"
    using retryWithBackoff_run[OF assms] by (simp add: n_def)
  have fails: "\<forall>j<k. isl (fst (os ! j))"
    using failures_isl by (auto simp: k_def)
  show ?thesis
  proof (cases "k < n")
    case True
    then have "\<not> isl (fst (os ! k))"
      using failures_first_success[of os] len by (simp add: k_def)
    then obtain v where v: "fst (os ! k) = Inr v"
      by (cases "fst (os ! k)") auto
    then have osk: "os ! k = (Inr v, snd (os ! k))"
      by (metis prod.collapse)
    have "retryWithBackoff baseDelay fn maxAttempts w =
            (Inr (Some v), snd (os ! k), backoff_events baseDelay 0 k)"
      using True v by (simp add: run retry_run_def Let_def os_def[symmetric] k_def[symmetric])
    then show ?thesis
      using True fails osk
      by (simp add: Let_def n_def[symmetric] os_def[symmetric] k_def[symmetric]
            backoff_events_concat0[symmetric])
  next
    case False
    then have k_eq: "k = n" using k_le by simp
    then have "isl (fst (os ! (n - 1)))" using fails n_pos by simp
    then obtain e where e: "fst (os ! (n - 1)) = Inl e"
      by (cases "fst (os ! (n - 1))") auto
    then have osn: "os ! (n - 1) = (Inl e, snd (os ! (n - 1)))"
      by (metis prod.collapse)
    have "retryWithBackoff baseDelay fn maxAttempts w =
            (Inl e, snd (os ! (n - 1)), backoff_events baseDelay 0 (n - 1))"
      using False e by (simp add: run retry_run_def Let_def os_def[symmetric] k_def[symmetric])
    then show ?thesis
      using False fails osn n_pos
      by (simp add: Let_def n_def[symmetric] os_def[symmetric] k_def[symmetric]
            backoff_events_concat0[symmetric])
  qed
qed

theorem retryWithBackoff_backoff_witness:
  "(1::int) \<le> 3 \<and>
   retryWithBackoff 1000 flaky 3 0 =
     (Inr (Some 7), 3, [Attempt, Sleep 1000, Attempt, Sleep 2000, Attempt]) \<and>
   outcomes flaky 3 0 = [(Inl (Error ''timeout''), 1), (Inl (Error ''timeout''), 2), (Inr 7, 3)]"
  using retryWithBackoff_backoff[of 3 flaky 0 1000]
  by (simp add: retryWithBackoff_def retry_loop.simps flaky_def numeral_3_eq_3)

text \<open>
  C10. For every operation, the retry wrapper called with a retry count of 0 or less
  returns \<open>undefined\<close> (\<open>Inr None\<close>) without calling the operation (no event, the world
  untouched) and without rejecting. With a retry count of at least 1, whatever it resolves
  to is a value that a call of the operation resolved to.
\<close>

theorem retryWithBackoff_nonpositive_retries:
  "(retries \<le> 0 \<longrightarrow> retryWithBackoff delay0 fn retries w = (Inr None, w, [])) \<and>
   (1 \<le> retries \<longrightarrow>
      (\<forall>r. fst (retryWithBackoff delay0 fn retries w) = Inr r \<longrightarrow>
           (\<exists>v w0. r = Some v \<and> fst (fn w0) = Inr v)))"
proof (intro conjI impI allI)
  assume "retries \<le> 0"
  then show "retryWithBackoff delay0 fn retries w = (Inr None, w, [])"
    by (simp add: retryWithBackoff_def retry_loop_done)
next
  fix r
  assume pos: "1 \<le> retries" and res: "fst (retryWithBackoff delay0 fn retries w) = Inr r"
  define n where "n = nat retries"
  define os where "os = outcomes fn n w"
  have run: "retryWithBackoff delay0 fn retries w = retry_run delay0 fn 0 n w"
    using retryWithBackoff_run[OF pos] by (simp add: n_def)
  have lt: "failures os < n"
    using res by (simp add: run retry_run_def Let_def os_def[symmetric] split: if_splits)
  then have r: "r = Some (projr (fst (os ! failures os)))"
    using res by (simp add: run retry_run_def Let_def os_def[symmetric])
  have "\<not> isl (fst (os ! failures os))"
    using failures_first_success[of os] lt by (simp add: os_def)
  then obtain v where v: "fst (os ! failures os) = Inr v"
    by (cases "fst (os ! failures os)") auto
  obtain w0 where "os ! failures os = fn w0"
    using outcomes_nth_call[OF lt, of fn w] by (auto simp: os_def)
  with v r show "\<exists>v w0. r = Some v \<and> fst (fn w0) = Inr v"
    by auto
qed

theorem retryWithBackoff_nonpositive_retries_witness:
  "retryWithBackoff 1000 flaky 0 0 = (Inr None, 0, []) \<and>
   retryWithBackoff 1000 flaky (- 2) 0 = (Inr None, 0, []) \<and>
   fst (retryWithBackoff 1000 flaky 1 2) = Inr (Some 7) \<and> fst (flaky 2) = Inr 7"
  using retryWithBackoff_nonpositive_retries[of 0 1000 flaky 0]
    retryWithBackoff_nonpositive_retries[of "- 2" 1000 flaky 0]
    retryWithBackoff_nonpositive_retries[of 1 1000 flaky 2]
  by (simp add: retryWithBackoff_def retry_loop.simps flaky_def)

lemma retryWithBackoff_defined:
  "1 \<le> retries \<Longrightarrow> fst (retryWithBackoff delay0 fn retries w) \<noteq> Inr None"
proof
  assume pos: "1 \<le> retries" and u: "fst (retryWithBackoff delay0 fn retries w) = Inr None"
  show False
    using u retryWithBackoff_run[OF pos, of delay0 fn w]
    by (simp add: retry_run_def Let_def split: if_splits)
qed

lemma retryWithBackoff_result:
  assumes "1 \<le> retries" and "retryWithBackoff delay0 fn retries w = (Inr r, w', evs)"
  shows "\<exists>v w0. r = Some v \<and> fn w0 = (Inr v, w')"
proof -
  define n where "n = nat retries"
  define os where "os = outcomes fn n w"
  have run: "retryWithBackoff delay0 fn retries w = retry_run delay0 fn 0 n w"
    using retryWithBackoff_run[OF assms(1)] by (simp add: n_def)
  have lt: "failures os < n"
    using assms(2) by (simp add: run retry_run_def Let_def os_def[symmetric] split: if_splits)
  then have r: "r = Some (projr (fst (os ! failures os)))" and w': "w' = snd (os ! failures os)"
    using assms(2) by (simp_all add: run retry_run_def Let_def os_def[symmetric])
  have "\<not> isl (fst (os ! failures os))"
    using failures_first_success[of os] lt by (simp add: os_def)
  then obtain v where v: "fst (os ! failures os) = Inr v"
    by (cases "fst (os ! failures os)") auto
  obtain w0 where "os ! failures os = fn w0"
    using outcomes_nth_call[OF lt, of fn w] by (auto simp: os_def)
  with v r w' show ?thesis
    by (metis prod.collapse sum.sel(2))
qed

section \<open>Properties of the endpoint fallback\<close>

lemma length_endpoint_outcomes [simp]: "length (endpoint_outcomes fn urls w) = length urls"
  by (induction urls arbitrary: w) auto

lemma endpoint_outcomes_nth_call:
  "j < length urls \<Longrightarrow> \<exists>w0. endpoint_outcomes fn urls w ! j = fn (urls ! j) w0"
proof (induction urls arbitrary: w j)
  case Nil
  then show ?case by simp
next
  case (Cons u us)
  then show ?case by (cases j) auto
qed

lemma error_message_throws: "error_message e = Inl t \<Longrightarrow> t = Error ''TypeError'' \<and> (e = Undefined \<or> e = Null)"
  by (cases e) auto

lemma goes_on_Inl: "goes_on (Inl e) \<longleftrightarrow> e \<noteq> Undefined \<and> e \<noteq> Null"
  by (cases e) auto

lemma goes_on_iff: "goes_on r \<longleftrightarrow> (\<exists>e. r = Inl e \<and> e \<noteq> Undefined \<and> e \<noteq> Null)"
proof (cases r)
  case (Inl e)
  then show ?thesis by (cases e) auto
next
  case (Inr v)
  then show ?thesis by simp
qed

lemma passed_le: "passed os \<le> length os"
  by (simp add: passed_def length_takeWhile_le)

lemma passed_goes_on: "j < passed os \<Longrightarrow> goes_on (fst (os ! j))"
  unfolding passed_def by (metis nth_mem set_takeWhileD takeWhile_nth)

lemma passed_stop: "passed os < length os \<Longrightarrow> \<not> goes_on (fst (os ! passed os))"
  unfolding passed_def by (rule nth_length_takeWhile)

lemma tryRPCEndpoints_loop_run:
  "tryRPCEndpoints_loop fn urls lastError w = fallback_run fn urls lastError w"
proof (induction urls arbitrary: lastError w)
  case Nil
  show ?case by (simp add: fallback_run_def passed_def)
next
  case (Cons u us)
  show ?case
  proof (cases "fn u w")
    case (Pair r w')
    show ?thesis
    proof (cases r)
      case (Inr v)
      with Pair show ?thesis by (simp add: fallback_run_def passed_def)
    next
      case (Inl e)
      show ?thesis
      proof (cases "error_message e")
        case (Inl t)
        then have "t = Error ''TypeError''" by (simp add: error_message_throws)
        with Pair \<open>r = Inl e\<close> Inl show ?thesis
          by (simp add: fallback_run_def passed_def)
      next
        case (Inr m)
        have "tryRPCEndpoints_loop fn (u # us) lastError w =
                (fst (fallback_run fn us e w'), fst (snd (fallback_run fn us e w')),
                 u # snd (snd (fallback_run fn us e w')))"
          using Pair \<open>r = Inl e\<close> Inr Cons.IH[of e w'] by (simp split: prod.splits)
        also have "\<dots> = fallback_run fn (u # us) lastError w"
          using Pair \<open>r = Inl e\<close> Inr
          by (cases us) (simp_all add: fallback_run_def passed_def Let_def)
        finally show ?thesis .
      qed
    qed
  qed
qed

text \<open>
  C4, as the code has it. For every non-empty list of endpoints and every operation,
  \<open>tryRPCEndpoints\<close> calls the operation on the endpoints in list order, stops at the first
  call that succeeds and returns its result without touching the later endpoints; when
  every call fails it has tried the whole list and rejects with the very value the last
  endpoint rejected with (no wrapper around it), or with \<open>Error('All RPC endpoints failed')\<close>
  when that value is falsy. A call that rejects with \<open>undefined\<close> or \<open>null\<close> ends the loop
  where it is, with the \<open>TypeError\<close> of the warning.
\<close>

theorem tryRPCEndpoints_order_and_last_error:
  assumes "rpcUrls \<noteq> []"
  shows "let os = endpoint_outcomes fn rpcUrls w; k = passed os in
         case tryRPCEndpoints rpcUrls fn w of
           (r, w', tried) \<Rightarrow>
             (\<forall>j<k. \<exists>e. fst (os ! j) = Inl e \<and> e \<noteq> Undefined \<and> e \<noteq> Null) \<and>
             (if k < length rpcUrls
              then tried = take (Suc k) rpcUrls \<and>
                   ((\<exists>v. os ! k = (Inr v, w') \<and> r = Inr v) \<or>
                    (\<exists>e. os ! k = (Inl e, w') \<and> (e = Undefined \<or> e = Null) \<and>
                         r = Inl (Error ''TypeError'')))
              else tried = rpcUrls \<and>
                   (\<exists>e. last os = (Inl e, w') \<and>
                        r = Inl (if truthy_thrown e then e else Error ''All RPC endpoints failed'')))"
proof -
  define os where "os = endpoint_outcomes fn rpcUrls w"
  define k where "k = passed os"
  have len: "length os = length rpcUrls" by (simp add: os_def)
  have os_ne: "os \<noteq> []" using assms len by auto
  have k_le: "k \<le> length rpcUrls" using passed_le[of os] len by (simp add: k_def)
  have run: "tryRPCEndpoints rpcUrls fn w = fallback_run fn rpcUrls Undefined w"
    by (simp add: tryRPCEndpoints_def tryRPCEndpoints_loop_run)
  have fails: "\<forall>j<k. \<exists>e. fst (os ! j) = Inl e \<and> e \<noteq> Undefined \<and> e \<noteq> Null"
    using passed_goes_on[of _ os] by (simp add: k_def goes_on_iff)
  show ?thesis
  proof (cases "k < length rpcUrls")
    case True
    then have stop: "\<not> goes_on (fst (os ! k))"
      using passed_stop[of os] len by (simp add: k_def)
    have res: "tryRPCEndpoints rpcUrls fn w =
            ((case fst (os ! k) of Inr v \<Rightarrow> Inr v | Inl e \<Rightarrow> Inl (Error ''TypeError'')),
             snd (os ! k), take (Suc k) rpcUrls)"
      using True by (simp add: run fallback_run_def Let_def os_def[symmetric] k_def[symmetric])
    have "(\<exists>v. os ! k = (Inr v, snd (os ! k)) \<and>
               (case fst (os ! k) of Inr v \<Rightarrow> Inr v | Inl e \<Rightarrow> Inl (Error ''TypeError'')) = Inr v) \<or>
          (\<exists>e. os ! k = (Inl e, snd (os ! k)) \<and> (e = Undefined \<or> e = Null) \<and>
               (case fst (os ! k) of Inr v \<Rightarrow> Inr v | Inl e \<Rightarrow> Inl (Error ''TypeError'')) =
               Inl (Error ''TypeError''))"
    proof (cases "fst (os ! k)")
      case (Inl e)
      then have "e = Undefined \<or> e = Null" using stop goes_on_Inl[of e] by auto
      moreover have "os ! k = (Inl e, snd (os ! k))" using Inl by (metis prod.collapse)
      ultimately show ?thesis using Inl by auto
    next
      case (Inr v)
      then have "os ! k = (Inr v, snd (os ! k))" by (metis prod.collapse)
      then show ?thesis using Inr by auto
    qed
    then show ?thesis
      using True fails
      by (simp add: Let_def os_def[symmetric] k_def[symmetric] res)
  next
    case False
    then have k_eq: "k = length os" using k_le len by simp
    have "\<exists>e. fst (os ! (length os - 1)) = Inl e"
      using fails os_ne k_eq by (metis One_nat_def diff_less length_greater_0_conv zero_less_one)
    then obtain e where e: "fst (last os) = Inl e"
      using os_ne by (auto simp: last_conv_nth)
    then have osn: "last os = (Inl e, snd (last os))"
      by (metis prod.collapse)
    have res: "tryRPCEndpoints rpcUrls fn w =
            (Inl (if truthy_thrown e then e else Error ''All RPC endpoints failed''), snd (last os), rpcUrls)"
      using False e assms by (simp add: run fallback_run_def Let_def os_def[symmetric] k_def[symmetric])
    have "\<exists>e'. last os = (Inl e', snd (last os)) \<and>
        fst (tryRPCEndpoints rpcUrls fn w) =
        Inl (if truthy_thrown e' then e' else Error ''All RPC endpoints failed'')"
      using osn res by auto
    then show ?thesis
      using False fails
      by (simp add: Let_def os_def[symmetric] k_def[symmetric] res)
  qed
qed

theorem tryRPCEndpoints_order_and_last_error_witness:
  "[''a'', ''b'', ''c'', ''d''] \<noteq> ([] :: url list) \<and>
   tryRPCEndpoints [''a'', ''b'', ''c'', ''d''] only_c 0 = (Inr 7, 3, [''a'', ''b'', ''c'']) \<and>
   tryRPCEndpoints [''a'', ''b''] only_c 0 = (Inl (Error ''no b''), 2, [''a'', ''b'']) \<and>
   tryRPCEndpoints [''a'', ''b''] rejects_null 0 = (Inl (Error ''TypeError''), 1, [''a''])"
  using tryRPCEndpoints_order_and_last_error[of "[''a'', ''b'', ''c'', ''d'']" only_c 0]
    tryRPCEndpoints_order_and_last_error[of "[''a'', ''b'']" only_c 0]
    tryRPCEndpoints_order_and_last_error[of "[''a'', ''b'']" rejects_null 0]
  by (simp add: tryRPCEndpoints_def only_c_def rejects_null_def)

text \<open>
  C4 as stated fails: with two endpoints that both fail, the call rejects with the error
  of the second endpoint itself, which is not an error of its own kind that carries it;
  the only error \<open>tryRPCEndpoints\<close> makes is \<open>Error('All RPC endpoints failed')\<close>, and that
  one carries nothing: it is what comes out when the endpoints reject with \<open>0\<close>.
\<close>

theorem tryRPCEndpoints_no_wrapper_counterexample:
  "tryRPCEndpoints [''a'', ''b''] only_c 0 = (Inl (Error ''no b''), 2, [''a'', ''b'']) \<and>
   only_c ''b'' 1 = (Inl (Error ''no b''), 2) \<and>
   Error ''no b'' \<noteq> Error ''All RPC endpoints failed'' \<and>
   tryRPCEndpoints [''a'', ''b''] rejects_zero 0 =
     (Inl (Error ''All RPC endpoints failed''), 2, [''a'', ''b'']) \<and>
   rejects_zero ''b'' 1 = (Inl (Num 0), 2)"
  by (simp add: tryRPCEndpoints_def only_c_def rejects_zero_def)

section \<open>Properties of the chain aggregator\<close>

lemma tryRPCEndpoints_result:
  assumes "tryRPCEndpoints rpcUrls fn w = (Inr v, w', tried)"
  shows "\<exists>rpcUrl\<in>set rpcUrls. \<exists>w0. fn rpcUrl w0 = (Inr v, w')"
proof -
  define os where "os = endpoint_outcomes fn rpcUrls w"
  have run: "tryRPCEndpoints rpcUrls fn w = fallback_run fn rpcUrls Undefined w"
    by (simp add: tryRPCEndpoints_def tryRPCEndpoints_loop_run)
  have lt: "passed os < length rpcUrls"
    using assms by (simp add: run fallback_run_def Let_def os_def[symmetric] split: if_splits)
  then have r: "(case fst (os ! passed os) of Inr v \<Rightarrow> Inr v | Inl e \<Rightarrow> Inl (Error ''TypeError'')) = Inr v"
    and w': "w' = snd (os ! passed os)"
    using assms by (simp_all add: run fallback_run_def Let_def os_def[symmetric])
  from r have v': "fst (os ! passed os) = Inr v"
    by (cases "fst (os ! passed os)") auto
  obtain w0 where "os ! passed os = fn (rpcUrls ! passed os) w0"
    using endpoint_outcomes_nth_call[OF lt, of fn w] by (auto simp: os_def)
  with v' w' have "fn (rpcUrls ! passed os) w0 = (Inr v, w')"
    by (metis prod.collapse)
  then show ?thesis using lt nth_mem by blast
qed

lemma withFallback_result:
  assumes "withFallback rpcUrls fn w = (Inr v, w')"
  shows "\<exists>rpcUrl\<in>set rpcUrls. \<exists>w0. fn rpcUrl w0 = (Inr v, w')"
proof -
  obtain tried where "tryRPCEndpoints rpcUrls fn w = (Inr v, w', tried)"
    using assms by (auto simp: withFallback_def split: prod.splits)
  then show ?thesis by (rule tryRPCEndpoints_result)
qed

lemma withFallback_first:
  "fn rpcUrl w = (Inr v, w') \<Longrightarrow> withFallback (rpcUrl # rest) fn w = (Inr v, w')"
  by (simp add: withFallback_def tryRPCEndpoints_def)

lemma retryWithBackoff_first:
  "1 \<le> retries \<Longrightarrow> fn w = (Inr v, w') \<Longrightarrow>
   retryWithBackoff delay0 fn retries w = (Inr (Some v), w', [Attempt])"
  by (simp add: retryWithBackoff_def retry_loop_success)

lemma foldl_plus_sum_list: "foldl (\<lambda>sum balance. sum + balance) a xs = a + sum_list (xs :: int list)"
  by (induction xs arbitrary: a) auto

lemma promise_all_length: "promise_all ps w = (Inr vs, w') \<Longrightarrow> length vs = length ps"
proof (induction ps arbitrary: w vs w')
  case Nil
  then show ?case by simp
next
  case (Cons p ps)
  then show ?case
    by (auto split: prod.splits sum.splits)
qed

lemma promise_all_answers:
  assumes "\<forall>a w. fst (f a w) = Inr (g a)"
  shows "fst (promise_all (map f as) w) = Inr (map g as)"
proof (induction as arbitrary: w)
  case Nil
  show ?case by simp
next
  case (Cons a as)
  obtain w1 where a: "f a w = (Inr (g a), w1)"
    using assms by (metis prod.collapse)
  obtain w2 where as: "promise_all (map f as) w1 = (Inr (map g as), w2)"
    using Cons.IH[of w1] by (metis prod.collapse)
  show ?case using a as by simp
qed

lemma getExcludedBalance_answers:
  assumes "\<forall>addr w. fst (contract_balanceOf rt rpcUrl tokenAddress addr w) = Inr (bal addr)"
  shows "fst (getExcludedBalance rt rpcUrl tokenAddress excludedAddresses w) =
           Inr (sum_list (map bal excludedAddresses))"
proof -
  obtain w' where "promise_all (map (\<lambda>addr. contract_balanceOf rt rpcUrl tokenAddress addr) excludedAddresses) w
                     = (Inr (map bal excludedAddresses), w')"
    using promise_all_answers[OF assms, of excludedAddresses w] by (metis prod.collapse)
  then show ?thesis
    by (simp add: getExcludedBalance_def foldl_plus_sum_list)
qed

lemma chainSupplyAt_answers:
  assumes "\<forall>addr w. fst (contract_balanceOf rt rpcUrl TOKEN_ADDRESS addr w) = Inr (bal addr)"
    and "\<forall>w. fst (contract_totalSupply rt rpcUrl TOKEN_ADDRESS w) = Inr supply"
  shows "fst (chainSupplyAt rt excluded chainName rpcUrl w) =
           Inr \<lparr>chain = chainName, totalSupply = supply,
                excludedBalance = sum_list (map bal excluded),
                circulatingSupply = supply - sum_list (map bal excluded)\<rparr>"
proof -
  obtain w1 where t: "contract_totalSupply rt rpcUrl TOKEN_ADDRESS w = (Inr supply, w1)"
    using assms(2) by (metis prod.collapse)
  obtain w2 where e: "getExcludedBalance rt rpcUrl TOKEN_ADDRESS excluded w1 =
                        (Inr (sum_list (map bal excluded)), w2)"
    using getExcludedBalance_answers[OF assms(1), of excluded w1] by (metis prod.collapse)
  show ?thesis using t e by (simp add: chainSupplyAt_def getTotalSupply_def)
qed

lemma chainSupplyAt_result:
  assumes "chainSupplyAt rt excluded chainName rpcUrl w0 = (Inr snap, w')"
  shows "chain snap = chainName \<and>
         circulatingSupply snap = totalSupply snap - excludedBalance snap \<and>
         (\<exists>w1 balances.
            contract_totalSupply rt rpcUrl TOKEN_ADDRESS w0 = (Inr (totalSupply snap), w1) \<and>
            promise_all (map (contract_balanceOf rt rpcUrl TOKEN_ADDRESS) excluded) w1 = (Inr balances, w') \<and>
            length balances = length excluded \<and>
            excludedBalance snap = sum_list balances)"
proof -
  obtain r1 w1 where t: "contract_totalSupply rt rpcUrl TOKEN_ADDRESS w0 = (r1, w1)"
    by (cases "contract_totalSupply rt rpcUrl TOKEN_ADDRESS w0")
  obtain r2 w2 where p: "promise_all (map (contract_balanceOf rt rpcUrl TOKEN_ADDRESS) excluded) w1 = (r2, w2)"
    by (cases "promise_all (map (contract_balanceOf rt rpcUrl TOKEN_ADDRESS) excluded) w1")
  from assms t obtain tsupply where r1: "r1 = Inr tsupply"
    by (cases r1) (auto simp: chainSupplyAt_def getTotalSupply_def)
  from assms t p r1 obtain balances where r2: "r2 = Inr balances"
    by (cases r2) (auto simp: chainSupplyAt_def getTotalSupply_def getExcludedBalance_def)
  have snap: "snap = \<lparr>chain = chainName, totalSupply = tsupply, excludedBalance = sum_list balances,
                      circulatingSupply = tsupply - sum_list balances\<rparr>" and w': "w' = w2"
    using assms t p r1 r2
    by (auto simp: chainSupplyAt_def getTotalSupply_def getExcludedBalance_def foldl_plus_sum_list)
  have "length balances = length excluded"
    using promise_all_length[of _ w1 balances w2] p r2 by fastforce
  then show ?thesis using snap w' t p r1 r2 by auto
qed

lemma getCirculatingSupplyForChain_result:
  assumes "getCirculatingSupplyForChain rt chainName rpcUrls w = (Inr (Some snap), w')"
  shows "\<exists>rpcUrl\<in>set rpcUrls. \<exists>w0. chainSupplyAt rt EXCLUDED_ADDRESSES chainName rpcUrl w0 = (Inr snap, w')"
proof -
  let ?op = "withFallback rpcUrls (chainSupplyAt rt EXCLUDED_ADDRESSES chainName)"
  obtain evs where "retryWithBackoff RETRY_DELAY ?op MAX_RETRIES w = (Inr (Some snap), w', evs)"
    using assms by (auto simp: getCirculatingSupplyForChain_def split: prod.splits)
  then obtain w1 where "?op w1 = (Inr snap, w')"
    using retryWithBackoff_result[of MAX_RETRIES RETRY_DELAY ?op w "Some snap" w' evs]
    by (auto simp: MAX_RETRIES_def)
  then show ?thesis by (rule withFallback_result)
qed

lemma getCirculatingSupplyForChain_lib_result:
  assumes "getCirculatingSupplyForChain_lib rt chainName rpcUrls w = (Inr (Some snap), w')"
  shows "\<exists>rpcUrl\<in>set rpcUrls. \<exists>w0. chainSupplyAt rt EXCLUDED_ADDRESSES_lib chainName rpcUrl w0 = (Inr snap, w')"
proof -
  let ?op = "withFallback rpcUrls (chainSupplyAt rt EXCLUDED_ADDRESSES_lib chainName)"
  obtain evs where "retryWithBackoff RETRY_DELAY_lib ?op MAX_RETRIES_lib w = (Inr (Some snap), w', evs)"
    using assms by (auto simp: getCirculatingSupplyForChain_lib_def split: prod.splits)
  then obtain w1 where "?op w1 = (Inr snap, w')"
    using retryWithBackoff_result[of MAX_RETRIES_lib RETRY_DELAY_lib ?op w "Some snap" w' evs]
    by (auto simp: MAX_RETRIES_lib_def)
  then show ?thesis by (rule withFallback_result)
qed

lemma example_ethereum_supply:
  "getCirculatingSupplyForChain (example_runtime 1) ''Ethereum'' (rpc_ethereum default_endpoints) 5 =
     (Inr (Some \<lparr>chain = ''Ethereum'', totalSupply = 500000000, excludedBalance = 50000000,
                  circulatingSupply = 450000000\<rparr>), 5)"
  by code_simp

lemma example_ethereum_supply_lib:
  "getCirculatingSupplyForChain_lib (example_runtime 1) ''Ethereum'' (rpc_ethereum default_endpoints) 5 =
     (Inr (Some \<lparr>chain = ''Ethereum'', totalSupply = 500000000, excludedBalance = 50000000,
                  circulatingSupply = 450000000\<rparr>), 5)"
  by code_simp

lemma example_ethereum_supply_basic:
  "getCirculatingSupplyForChain_basic (example_runtime 1) ''Ethereum'' ''https://eth.llamarpc.com'' 5 =
     (Inr \<lparr>chain = ''Ethereum'', totalSupply = 500000000, excludedBalance = 50000000,
            circulatingSupply = 450000000\<rparr>, 5)"
  by code_simp

text \<open>
  C6. Whenever the fetch of a chain succeeds, in the enhanced server, in
  \<open>api/_lib/blockchain.js\<close> and in the basic server, the snapshot it returns satisfies
  \<open>circulatingSupply = totalSupply - excludedBalance\<close> as an equation between integers
  (\<open>BigInt\<close>: no rounding, no floating point), where \<open>totalSupply\<close> is what one endpoint of
  the list answered and \<open>excludedBalance\<close> is the sum of what the same endpoint answered
  to \<open>balanceOf\<close> for the excluded addresses, one answer for each entry of the list.
\<close>

theorem circulating_is_total_minus_excluded:
  "(getCirculatingSupplyForChain rt chainName rpcUrls w = (Inr (Some snap), w') \<longrightarrow>
      circulatingSupply snap = totalSupply snap - excludedBalance snap \<and>
      (\<exists>rpcUrl\<in>set rpcUrls. \<exists>w0 w1 balances.
         contract_totalSupply rt rpcUrl TOKEN_ADDRESS w0 = (Inr (totalSupply snap), w1) \<and>
         promise_all (map (contract_balanceOf rt rpcUrl TOKEN_ADDRESS) EXCLUDED_ADDRESSES) w1 = (Inr balances, w') \<and>
         length balances = length EXCLUDED_ADDRESSES \<and>
         excludedBalance snap = sum_list balances)) \<and>
   (getCirculatingSupplyForChain_lib rt chainName rpcUrls w = (Inr (Some snap), w') \<longrightarrow>
      circulatingSupply snap = totalSupply snap - excludedBalance snap \<and>
      (\<exists>rpcUrl\<in>set rpcUrls. \<exists>w0 w1 balances.
         contract_totalSupply rt rpcUrl TOKEN_ADDRESS w0 = (Inr (totalSupply snap), w1) \<and>
         promise_all (map (contract_balanceOf rt rpcUrl TOKEN_ADDRESS) EXCLUDED_ADDRESSES_lib) w1 = (Inr balances, w') \<and>
         length balances = length EXCLUDED_ADDRESSES_lib \<and>
         excludedBalance snap = sum_list balances)) \<and>
   (getCirculatingSupplyForChain_basic rt chainName rpcUrl w = (Inr snap, w') \<longrightarrow>
      circulatingSupply snap = totalSupply snap - excludedBalance snap \<and>
      (\<exists>w1 balances.
         contract_totalSupply rt rpcUrl TOKEN_ADDRESS w = (Inr (totalSupply snap), w1) \<and>
         promise_all (map (contract_balanceOf rt rpcUrl TOKEN_ADDRESS) EXCLUDED_ADDRESSES) w1 = (Inr balances, w') \<and>
         length balances = length EXCLUDED_ADDRESSES \<and>
         excludedBalance snap = sum_list balances))"
proof (intro conjI impI)
  assume a: "getCirculatingSupplyForChain rt chainName rpcUrls w = (Inr (Some snap), w')"
  from getCirculatingSupplyForChain_result[OF a]
  obtain u w0 where u: "u \<in> set rpcUrls"
    and at: "chainSupplyAt rt EXCLUDED_ADDRESSES chainName u w0 = (Inr snap, w')"
    by auto
  from chainSupplyAt_result[OF at]
  show "circulatingSupply snap = totalSupply snap - excludedBalance snap" by simp
  from chainSupplyAt_result[OF at] u
  show "\<exists>rpcUrl\<in>set rpcUrls. \<exists>w0 w1 balances.
         contract_totalSupply rt rpcUrl TOKEN_ADDRESS w0 = (Inr (totalSupply snap), w1) \<and>
         promise_all (map (contract_balanceOf rt rpcUrl TOKEN_ADDRESS) EXCLUDED_ADDRESSES) w1 = (Inr balances, w') \<and>
         length balances = length EXCLUDED_ADDRESSES \<and>
         excludedBalance snap = sum_list balances"
    by blast
next
  assume a: "getCirculatingSupplyForChain_lib rt chainName rpcUrls w = (Inr (Some snap), w')"
  from getCirculatingSupplyForChain_lib_result[OF a]
  obtain u w0 where u: "u \<in> set rpcUrls"
    and at: "chainSupplyAt rt EXCLUDED_ADDRESSES_lib chainName u w0 = (Inr snap, w')"
    by auto
  from chainSupplyAt_result[OF at]
  show "circulatingSupply snap = totalSupply snap - excludedBalance snap" by simp
  from chainSupplyAt_result[OF at] u
  show "\<exists>rpcUrl\<in>set rpcUrls. \<exists>w0 w1 balances.
         contract_totalSupply rt rpcUrl TOKEN_ADDRESS w0 = (Inr (totalSupply snap), w1) \<and>
         promise_all (map (contract_balanceOf rt rpcUrl TOKEN_ADDRESS) EXCLUDED_ADDRESSES_lib) w1 = (Inr balances, w') \<and>
         length balances = length EXCLUDED_ADDRESSES_lib \<and>
         excludedBalance snap = sum_list balances"
    by blast
next
  assume a: "getCirculatingSupplyForChain_basic rt chainName rpcUrl w = (Inr snap, w')"
  then have at: "chainSupplyAt rt EXCLUDED_ADDRESSES chainName rpcUrl w = (Inr snap, w')"
    by (simp add: getCirculatingSupplyForChain_basic_def)
  from chainSupplyAt_result[OF at]
  show "circulatingSupply snap = totalSupply snap - excludedBalance snap" by simp
  from chainSupplyAt_result[OF at]
  show "\<exists>w1 balances.
         contract_totalSupply rt rpcUrl TOKEN_ADDRESS w = (Inr (totalSupply snap), w1) \<and>
         promise_all (map (contract_balanceOf rt rpcUrl TOKEN_ADDRESS) EXCLUDED_ADDRESSES) w1 = (Inr balances, w') \<and>
         length balances = length EXCLUDED_ADDRESSES \<and>
         excludedBalance snap = sum_list balances"
    by blast
qed

theorem circulating_is_total_minus_excluded_witness:
  "getCirculatingSupplyForChain (example_runtime 1) ''Ethereum'' (rpc_ethereum default_endpoints) 5 =
     (Inr (Some \<lparr>chain = ''Ethereum'', totalSupply = 500000000, excludedBalance = 50000000,
                  circulatingSupply = 450000000\<rparr>), 5) \<and>
   getCirculatingSupplyForChain_lib (example_runtime 1) ''Ethereum'' (rpc_ethereum default_endpoints) 5 =
     (Inr (Some \<lparr>chain = ''Ethereum'', totalSupply = 500000000, excludedBalance = 50000000,
                  circulatingSupply = 450000000\<rparr>), 5) \<and>
   getCirculatingSupplyForChain_basic (example_runtime 1) ''Ethereum'' ''https://eth.llamarpc.com'' 5 =
     (Inr \<lparr>chain = ''Ethereum'', totalSupply = 500000000, excludedBalance = 50000000,
            circulatingSupply = 450000000\<rparr>, 5) \<and>
   (450000000 :: int) = 500000000 - 50000000"
  using circulating_is_total_minus_excluded[of "example_runtime 1" "''Ethereum''"
      "rpc_ethereum default_endpoints" 5
      "\<lparr>chain = ''Ethereum'', totalSupply = 500000000, excludedBalance = 50000000,
        circulatingSupply = 450000000\<rparr>" 5 "''https://eth.llamarpc.com''"]
    example_ethereum_supply example_ethereum_supply_lib example_ethereum_supply_basic
  by simp

lemma getCirculatingSupplyForChain_answers:
  assumes "\<forall>addr w. fst (contract_balanceOf rt rpcUrl TOKEN_ADDRESS addr w) = Inr (bal addr)"
    and "\<forall>w. fst (contract_totalSupply rt rpcUrl TOKEN_ADDRESS w) = Inr tsupply"
  shows "fst (getCirculatingSupplyForChain rt chainName (rpcUrl # rest) w) =
           Inr (Some \<lparr>chain = chainName, totalSupply = tsupply,
                      excludedBalance = sum_list (map bal EXCLUDED_ADDRESSES),
                      circulatingSupply = tsupply - sum_list (map bal EXCLUDED_ADDRESSES)\<rparr>)"
proof -
  let ?snap = "\<lparr>chain = chainName, totalSupply = tsupply,
                 excludedBalance = sum_list (map bal EXCLUDED_ADDRESSES),
                 circulatingSupply = tsupply - sum_list (map bal EXCLUDED_ADDRESSES)\<rparr>"
  obtain w' where "chainSupplyAt rt EXCLUDED_ADDRESSES chainName rpcUrl w = (Inr ?snap, w')"
    using chainSupplyAt_answers[OF assms, of EXCLUDED_ADDRESSES chainName w] by (metis prod.collapse)
  then have "withFallback (rpcUrl # rest) (chainSupplyAt rt EXCLUDED_ADDRESSES chainName) w = (Inr ?snap, w')"
    by (rule withFallback_first)
  then have "retryWithBackoff RETRY_DELAY
               (withFallback (rpcUrl # rest) (chainSupplyAt rt EXCLUDED_ADDRESSES chainName)) MAX_RETRIES w =
             (Inr (Some ?snap), w', [Attempt])"
    by (intro retryWithBackoff_first) (simp_all add: MAX_RETRIES_def)
  then show ?thesis by (simp add: getCirculatingSupplyForChain_def)
qed

text \<open>
  C9. The excluded list of the basic and of the enhanced server holds the address
  \<open>0x7481b40c3453D0b5D9b8f82427c77C2eCAd397d1\<close> twice. \<open>getExcludedBalance\<close> sums the
  answers of \<open>balanceOf\<close> over the list it is given, entry by entry, with no deduplication
  and no normalisation. So on an endpoint that answers with the balances \<open>bal\<close> and the
  total supply of a chain, the excluded balance counts the balance of that address twice,
  and the circulating supply both servers report has it subtracted twice.
\<close>

theorem excluded_balance_counts_duplicate_twice:
  assumes "\<forall>addr w. fst (contract_balanceOf rt rpcUrl TOKEN_ADDRESS addr w) = Inr (bal addr)"
    and "\<forall>w. fst (contract_totalSupply rt rpcUrl TOKEN_ADDRESS w) = Inr tsupply"
  shows "count_list EXCLUDED_ADDRESSES ''0x7481b40c3453D0b5D9b8f82427c77C2eCAd397d1'' = 2 \<and>
         fst (getExcludedBalance rt rpcUrl TOKEN_ADDRESS excludedAddresses w) =
           Inr (sum_list (map bal excludedAddresses)) \<and>
         fst (getExcludedBalance rt rpcUrl TOKEN_ADDRESS EXCLUDED_ADDRESSES w) =
           Inr (bal ''0x0000000000000000000000000000000000000000'' +
                bal ''0x000000000000000000000000000000000000dEaD'' +
                bal ''0x1Ae6DCBc88d6f81A7BCFcCC7198397D776F3592E'' +
                bal ''0xE2a7De3C3190AFd79C49C8E8f2Fa30Ca78B97DFd'' +
                2 * bal ''0x7481b40c3453D0b5D9b8f82427c77C2eCAd397d1'') \<and>
         (\<exists>snap. fst (getCirculatingSupplyForChain_basic rt chainName rpcUrl w) = Inr snap \<and>
            circulatingSupply snap =
              tsupply -
               (bal ''0x0000000000000000000000000000000000000000'' +
                bal ''0x000000000000000000000000000000000000dEaD'' +
                bal ''0x1Ae6DCBc88d6f81A7BCFcCC7198397D776F3592E'' +
                bal ''0xE2a7De3C3190AFd79C49C8E8f2Fa30Ca78B97DFd'') -
               2 * bal ''0x7481b40c3453D0b5D9b8f82427c77C2eCAd397d1'') \<and>
         (\<exists>snap. fst (getCirculatingSupplyForChain rt chainName (rpcUrl # rest) w) = Inr (Some snap) \<and>
            circulatingSupply snap =
              tsupply -
               (bal ''0x0000000000000000000000000000000000000000'' +
                bal ''0x000000000000000000000000000000000000dEaD'' +
                bal ''0x1Ae6DCBc88d6f81A7BCFcCC7198397D776F3592E'' +
                bal ''0xE2a7De3C3190AFd79C49C8E8f2Fa30Ca78B97DFd'') -
               2 * bal ''0x7481b40c3453D0b5D9b8f82427c77C2eCAd397d1'')"
proof (intro conjI)
  show "count_list EXCLUDED_ADDRESSES ''0x7481b40c3453D0b5D9b8f82427c77C2eCAd397d1'' = 2"
    by (simp add: EXCLUDED_ADDRESSES_def)
  show "fst (getExcludedBalance rt rpcUrl TOKEN_ADDRESS excludedAddresses w) =
          Inr (sum_list (map bal excludedAddresses))"
    by (rule getExcludedBalance_answers[OF assms(1)])
  show "fst (getExcludedBalance rt rpcUrl TOKEN_ADDRESS EXCLUDED_ADDRESSES w) =
           Inr (bal ''0x0000000000000000000000000000000000000000'' +
                bal ''0x000000000000000000000000000000000000dEaD'' +
                bal ''0x1Ae6DCBc88d6f81A7BCFcCC7198397D776F3592E'' +
                bal ''0xE2a7De3C3190AFd79C49C8E8f2Fa30Ca78B97DFd'' +
                2 * bal ''0x7481b40c3453D0b5D9b8f82427c77C2eCAd397d1'')"
    using getExcludedBalance_answers[OF assms(1), of EXCLUDED_ADDRESSES w]
    by (simp add: EXCLUDED_ADDRESSES_def)
  show "\<exists>snap. fst (getCirculatingSupplyForChain_basic rt chainName rpcUrl w) = Inr snap \<and>
            circulatingSupply snap =
              tsupply -
               (bal ''0x0000000000000000000000000000000000000000'' +
                bal ''0x000000000000000000000000000000000000dEaD'' +
                bal ''0x1Ae6DCBc88d6f81A7BCFcCC7198397D776F3592E'' +
                bal ''0xE2a7De3C3190AFd79C49C8E8f2Fa30Ca78B97DFd'') -
               2 * bal ''0x7481b40c3453D0b5D9b8f82427c77C2eCAd397d1''"
    using chainSupplyAt_answers[OF assms, of EXCLUDED_ADDRESSES chainName w]
    by (simp add: getCirculatingSupplyForChain_basic_def EXCLUDED_ADDRESSES_def)
  show "\<exists>snap. fst (getCirculatingSupplyForChain rt chainName (rpcUrl # rest) w) = Inr (Some snap) \<and>
            circulatingSupply snap =
              tsupply -
               (bal ''0x0000000000000000000000000000000000000000'' +
                bal ''0x000000000000000000000000000000000000dEaD'' +
                bal ''0x1Ae6DCBc88d6f81A7BCFcCC7198397D776F3592E'' +
                bal ''0xE2a7De3C3190AFd79C49C8E8f2Fa30Ca78B97DFd'') -
               2 * bal ''0x7481b40c3453D0b5D9b8f82427c77C2eCAd397d1''"
    using getCirculatingSupplyForChain_answers[OF assms, of chainName rest w]
    by (simp add: EXCLUDED_ADDRESSES_def)
qed

lemma plasma_dao_balances:
  "\<forall>addr w. fst (contract_balanceOf plasma_dao_runtime ''https://rpc.plasma.to'' TOKEN_ADDRESS addr w) =
     Inr (if addr = ''0x7481b40c3453D0b5D9b8f82427c77C2eCAd397d1'' then 100 else 0)"
  by (simp add: plasma_dao_runtime_def clock_runtime_def)

lemma plasma_dao_total:
  "\<forall>w. fst (contract_totalSupply plasma_dao_runtime ''https://rpc.plasma.to'' TOKEN_ADDRESS w) = Inr 1000"
  by (simp add: plasma_dao_runtime_def clock_runtime_def)

theorem excluded_balance_counts_duplicate_twice_witness:
  "(\<forall>addr w. fst (contract_balanceOf plasma_dao_runtime ''https://rpc.plasma.to'' TOKEN_ADDRESS addr w) =
      Inr (if addr = ''0x7481b40c3453D0b5D9b8f82427c77C2eCAd397d1'' then 100 else 0)) \<and>
   (\<forall>w. fst (contract_totalSupply plasma_dao_runtime ''https://rpc.plasma.to'' TOKEN_ADDRESS w) = Inr 1000) \<and>
   fst (getExcludedBalance plasma_dao_runtime ''https://rpc.plasma.to'' TOKEN_ADDRESS EXCLUDED_ADDRESSES 0) = Inr 200 \<and>
   (\<exists>snap. fst (getCirculatingSupplyForChain_basic plasma_dao_runtime ''Plasma'' ''https://rpc.plasma.to'' 0) = Inr snap \<and>
      circulatingSupply snap = 800) \<and>
   (\<exists>snap. fst (getCirculatingSupplyForChain plasma_dao_runtime ''Plasma''
                   [''https://rpc.plasma.to'', ''https://plasma.drpc.org''] 0) = Inr (Some snap) \<and>
      circulatingSupply snap = 800)"
  using excluded_balance_counts_duplicate_twice[OF plasma_dao_balances plasma_dao_total,
      of "[]" 0 "''Plasma''" "[''https://plasma.drpc.org'']"]
    plasma_dao_balances plasma_dao_total
  by simp

section \<open>Evaluating the examples\<close>

lemma bigint_toString_nonempty: "bigint_toString n \<noteq> []"
  by (subst bigint_toString.simps) simp

lemma trim_zeros_keeps_point: "CHR ''.'' \<in> set s \<Longrightarrow> CHR ''.'' \<in> set (trim_zeros s)"
  by (induction s rule: trim_zeros.induct) auto

lemma ethers_formatUnits_nonempty: "ethers_formatUnits val unit \<noteq> []"
proof (cases "nat unit = 0")
  case True
  then show ?thesis
    by (simp add: ethers_formatUnits_def Let_def bigint_toString_nonempty)
next
  case False
  define str where "str = bigint_toString (nat \<bar>val\<bar>)"
  define padded where "padded = pad_zeros str (nat unit)"
  define pointed where
    "pointed = take (length padded - nat unit) padded @ ''.'' @ drop (length padded - nat unit) padded"
  have "CHR ''.'' \<in> set pointed" by (simp add: pointed_def)
  then have "CHR ''.'' \<in> set (trim_zeros pointed)" by (rule trim_zeros_keeps_point)
  then have "CHR ''.'' \<in> set (rev (trim_zeros pointed))" by simp
  then have "CHR ''.'' \<in> set (trim_zeros (rev (trim_zeros pointed)))" by (rule trim_zeros_keeps_point)
  then have "rev (trim_zeros (rev (trim_zeros pointed))) \<noteq> []" by auto
  then show ?thesis
    using False
    by (simp add: ethers_formatUnits_def Let_def str_def padded_def pointed_def)
qed

lemma format_circulating: "ethers_formatUnits (900000000 * 10 ^ 18) 18 = ''900000000.0''"
  by (simp add: ethers_formatUnits_def bigint_toString.simps pad_zeros.simps digit_char_def Let_def)

lemma format_total: "ethers_formatUnits (1000000000 * 10 ^ 18) 18 = ''1000000000.0''"
  by (simp add: ethers_formatUnits_def bigint_toString.simps pad_zeros.simps digit_char_def Let_def)

lemma example_fetch_scaled:
  "getAllChainsCirculatingSupply (example_runtime (10 ^ 18)) default_endpoints 5 =
     (Inr (example_data (10 ^ 18) 5), 5)"
  by code_simp

lemma outage_fetch_down:
  "getAllChainsCirculatingSupply outage_runtime default_endpoints 400000 = (Inl (Error ''down''), 400000)"
  by code_simp

lemma growing_fetch_late:
  "getAllChainsCirculatingSupply growing_runtime default_endpoints 400000 =
     (Inr (example_data (2 * 10 ^ 18) 400000), 400000)"
  by code_simp

lemma outage_fetch_up:
  "getAllChainsCirculatingSupply outage_runtime default_endpoints 1000 =
     (Inr (example_data (10 ^ 18) 1000), 1000)"
  by code_simp

section \<open>Properties of the cache\<close>

lemma truthy_after_updateAll:
  assumes "\<forall>v d. formatUnits rt v d \<noteq> []"
  shows "truthy (entry_value (updateAll rt cache data now cacheKey))"
  using assms by (cases cacheKey) (simp_all add: updateAll_def updateCache_def Let_def formatSupply_def)

text \<open>
  C1. The status of a cache entry at a moment \<open>now\<close> is decided by its age
  \<open>now - timestamp\<close> and the two thresholds \<open>CACHE_TTL = 60000\<close> and
  \<open>STALE_WHILE_REVALIDATE = 300000\<close>: an entry that holds a value (a truthy one) is
  \<open>HIT\<close> below the first threshold and \<open>STALE\<close> from the first up to the second; an entry
  that is empty or at least as old as the second is \<open>MISS\<close>. After \<open>updateCache\<close> has
  stored a value at time \<open>now\<close> the status is \<open>HIT\<close> at once, \<open>STALE\<close> once 60000 ms
  have gone by and \<open>MISS\<close> after 300000 ms; the three entries written after a fetch are
  \<open>HIT\<close> at once, the library never formatting a number as the empty string. As time goes
  by with no refresh the status never moves back.
\<close>

theorem getCacheStatus_zones:
  "CACHE_TTL = 60000 \<and> STALE_WHILE_REVALIDATE = 300000 \<and>
   (truthy (entry_value (cache cacheKey)) \<and> now - entry_timestamp (cache cacheKey) < CACHE_TTL
      \<longrightarrow> getCacheStatus cache cacheKey now = HIT) \<and>
   (truthy (entry_value (cache cacheKey)) \<and> CACHE_TTL \<le> now - entry_timestamp (cache cacheKey) \<and>
    now - entry_timestamp (cache cacheKey) < STALE_WHILE_REVALIDATE
      \<longrightarrow> getCacheStatus cache cacheKey now = STALE) \<and>
   (\<not> truthy (entry_value (cache cacheKey)) \<or>
    STALE_WHILE_REVALIDATE \<le> now - entry_timestamp (cache cacheKey)
      \<longrightarrow> getCacheStatus cache cacheKey now = MISS) \<and>
   (truthy v \<longrightarrow>
      getCacheStatus (updateCache cache cacheKey v now) cacheKey (now + elapsed) =
        (if elapsed < CACHE_TTL then HIT else if elapsed < STALE_WHILE_REVALIDATE then STALE else MISS)) \<and>
   ((\<forall>v d. formatUnits rt v d \<noteq> []) \<longrightarrow>
      getCacheStatus (updateAll rt cache data now) cacheKey now = HIT) \<and>
   (now \<le> later \<longrightarrow>
      zone (getCacheStatus cache cacheKey now) \<le> zone (getCacheStatus cache cacheKey later))"
proof (intro conjI impI)
  show "CACHE_TTL = 60000" by (simp add: CACHE_TTL_def)
  show "STALE_WHILE_REVALIDATE = 300000" by (simp add: STALE_WHILE_REVALIDATE_def)
next
  assume "truthy (entry_value (cache cacheKey)) \<and> now - entry_timestamp (cache cacheKey) < CACHE_TTL"
  then show "getCacheStatus cache cacheKey now = HIT"
    by (simp add: getCacheStatus_def isCacheFresh_def Let_def)
next
  assume "truthy (entry_value (cache cacheKey)) \<and> CACHE_TTL \<le> now - entry_timestamp (cache cacheKey) \<and>
    now - entry_timestamp (cache cacheKey) < STALE_WHILE_REVALIDATE"
  then show "getCacheStatus cache cacheKey now = STALE"
    by (simp add: getCacheStatus_def isCacheFresh_def isCacheStale_def Let_def)
next
  assume "\<not> truthy (entry_value (cache cacheKey)) \<or>
    STALE_WHILE_REVALIDATE \<le> now - entry_timestamp (cache cacheKey)"
  then show "getCacheStatus cache cacheKey now = MISS"
    by (auto simp add: getCacheStatus_def isCacheFresh_def isCacheStale_def Let_def
          CACHE_TTL_def STALE_WHILE_REVALIDATE_def)
next
  assume "truthy v"
  then show "getCacheStatus (updateCache cache cacheKey v now) cacheKey (now + elapsed) =
        (if elapsed < CACHE_TTL then HIT else if elapsed < STALE_WHILE_REVALIDATE then STALE else MISS)"
    by (simp add: getCacheStatus_def isCacheFresh_def isCacheStale_def updateCache_def Let_def)
next
  assume "\<forall>v d. formatUnits rt v d \<noteq> []"
  then have "truthy (entry_value (updateAll rt cache data now cacheKey))"
    by (rule truthy_after_updateAll)
  moreover have "entry_timestamp (updateAll rt cache data now cacheKey) = now"
    by (cases cacheKey) (simp_all add: updateAll_def updateCache_def Let_def)
  ultimately show "getCacheStatus (updateAll rt cache data now) cacheKey now = HIT"
    by (simp add: getCacheStatus_def isCacheFresh_def Let_def CACHE_TTL_def)
next
  assume "now \<le> later"
  then show "zone (getCacheStatus cache cacheKey now) \<le> zone (getCacheStatus cache cacheKey later)"
    by (auto simp add: getCacheStatus_def isCacheFresh_def isCacheStale_def Let_def
          CACHE_TTL_def STALE_WHILE_REVALIDATE_def)
qed

lemma example_formatUnits_nonempty: "\<forall>v d. formatUnits (example_runtime 1) v d \<noteq> []"
  by (simp add: example_runtime_def clock_runtime_def ethers_formatUnits_nonempty)

theorem getCacheStatus_zones_witness:
  "truthy (TextValue ''900000000.0'') \<and>
   (\<forall>v d. formatUnits (example_runtime 1) v d \<noteq> []) \<and>
   getCacheStatus (updateCache empty_cache Circulating (TextValue ''900000000.0'') 1000) Circulating 1000 = HIT \<and>
   getCacheStatus (updateCache empty_cache Circulating (TextValue ''900000000.0'') 1000) Circulating 60999 = HIT \<and>
   getCacheStatus (updateCache empty_cache Circulating (TextValue ''900000000.0'') 1000) Circulating 61000 = STALE \<and>
   getCacheStatus (updateCache empty_cache Circulating (TextValue ''900000000.0'') 1000) Circulating 300999 = STALE \<and>
   getCacheStatus (updateCache empty_cache Circulating (TextValue ''900000000.0'') 1000) Circulating 301000 = MISS \<and>
   getCacheStatus empty_cache Circulating 1000 = MISS \<and>
   getCacheStatus (updateAll (example_runtime 1) empty_cache (example_data 1 1000) 1000) Total 1000 = HIT"
proof -
  have sched:
    "getCacheStatus (updateCache empty_cache Circulating (TextValue ''900000000.0'') 1000) Circulating
       (1000 + elapsed) =
     (if elapsed < CACHE_TTL then HIT else if elapsed < STALE_WHILE_REVALIDATE then STALE else MISS)"
    for elapsed
    using getCacheStatus_zones[of empty_cache Circulating 1000 "TextValue ''900000000.0''" elapsed
        "example_runtime 1" "example_data 1 1000" 1000]
    by simp
  have cold: "getCacheStatus empty_cache Circulating 1000 = MISS"
    using getCacheStatus_zones[of empty_cache Circulating 1000 NullValue 0
        "example_runtime 1" "example_data 1 1000" 1000]
    by (simp add: empty_cache_def)
  have fetched:
    "getCacheStatus (updateAll (example_runtime 1) empty_cache (example_data 1 1000) 1000) Total 1000 = HIT"
    using getCacheStatus_zones[of empty_cache Total 1000 NullValue 0
        "example_runtime 1" "example_data 1 1000" 1000]
      example_formatUnits_nonempty
    by simp
  show ?thesis
    using sched[of 0] sched[of 59999] sched[of 60000] sched[of 299999] sched[of 300000] cold fetched
      example_formatUnits_nonempty
    by (simp add: CACHE_TTL_def STALE_WHILE_REVALIDATE_def)
qed

section \<open>Properties of the endpoints\<close>

lemma cache_eqI:
  fixes c d :: cache
  assumes "c Circulating = d Circulating" and "c Total = d Total" and "c Detailed = d Detailed"
  shows "c = d"
proof
  fix cacheKey
  show "c cacheKey = d cacheKey" using assms by (cases cacheKey) simp_all
qed

lemma get_circulating_supply_stale:
  assumes "getCacheStatus cache Circulating (date_now rt w) = STALE"
  shows "get_circulating_supply rt eps cache w =
           \<lparr>reply = Inr \<lparr>status = 200, content_type = ''text/plain'', x_cache = Some STALE,
                         x_cache_age = Some ((date_now rt w - entry_timestamp (cache Circulating)) div 1000),
                         body = Send (entry_value (cache Circulating))\<rparr>,
            cache_after = cache, world_after = w, refresh_started = True\<rparr>"
proof -
  have "truthy (entry_value (cache Circulating))"
    using assms by (auto simp: getCacheStatus_def isCacheFresh_def isCacheStale_def Let_def split: if_splits)
  then show ?thesis
    using assms by (simp add: get_circulating_supply_def Let_def getCachedValue_def)
qed

lemma get_total_supply_stale:
  assumes "getCacheStatus cache Total (date_now rt w) = STALE"
  shows "get_total_supply rt eps cache w =
           \<lparr>reply = Inr \<lparr>status = 200, content_type = ''text/plain'', x_cache = Some STALE,
                         x_cache_age = None, body = Send (entry_value (cache Total))\<rparr>,
            cache_after = cache, world_after = w, refresh_started = True\<rparr>"
proof -
  have "truthy (entry_value (cache Total))"
    using assms by (auto simp: getCacheStatus_def isCacheFresh_def isCacheStale_def Let_def split: if_splits)
  then show ?thesis
    using assms by (simp add: get_total_supply_def Let_def getCachedValue_def)
qed

lemma get_circulating_supply_miss_success:
  assumes "getCacheStatus cache Circulating (date_now rt w) = MISS"
    and "getAllChainsCirculatingSupply rt eps w = (Inr data, w')"
  shows "get_circulating_supply rt eps cache w =
           \<lparr>reply = Inr \<lparr>status = 200, content_type = ''text/plain'', x_cache = Some MISS,
                         x_cache_age = None,
                         body = Send (TextValue (formatSupply rt (totals_circulatingSupply (totals data))
                                                   (decimals (totals data))))\<rparr>,
            cache_after = updateAll rt cache data (date_now rt w'), world_after = w',
            refresh_started = False\<rparr>"
  using assms by (simp add: get_circulating_supply_def Let_def)

lemma get_total_supply_miss_success:
  assumes "getCacheStatus cache Total (date_now rt w) = MISS"
    and "getAllChainsCirculatingSupply rt eps w = (Inr data, w')"
  shows "get_total_supply rt eps cache w =
           \<lparr>reply = Inr \<lparr>status = 200, content_type = ''text/plain'', x_cache = Some MISS,
                         x_cache_age = None,
                         body = Send (TextValue (formatSupply rt (totals_totalSupply (totals data))
                                                   (decimals (totals data))))\<rparr>,
            cache_after = updateAll rt cache data (date_now rt w'), world_after = w',
            refresh_started = False\<rparr>"
  using assms by (simp add: get_total_supply_def Let_def)

lemma get_circulating_supply_miss_failure:
  assumes "getCacheStatus cache Circulating (date_now rt w) = MISS"
    and "getAllChainsCirculatingSupply rt eps w = (Inl e, w')"
  shows "get_circulating_supply rt eps cache w =
           \<lparr>reply = Inr (if truthy (entry_value (cache Circulating))
                         then \<lparr>status = 200, content_type = ''text/plain'', x_cache = Some ERROR_FALLBACK,
                               x_cache_age = None, body = Send (entry_value (cache Circulating))\<rparr>
                         else \<lparr>status = 500, content_type = ''text/plain'', x_cache = None,
                               x_cache_age = None, body = Send (TextValue ''0'')\<rparr>),
            cache_after = cache, world_after = w', refresh_started = False\<rparr>"
  using assms by (simp add: get_circulating_supply_def Let_def getCachedValue_def)

lemma get_total_supply_miss_failure:
  assumes "getCacheStatus cache Total (date_now rt w) = MISS"
    and "getAllChainsCirculatingSupply rt eps w = (Inl e, w')"
  shows "get_total_supply rt eps cache w =
           \<lparr>reply = Inr (if truthy (entry_value (cache Total))
                         then \<lparr>status = 200, content_type = ''text/plain'', x_cache = Some ERROR_FALLBACK,
                               x_cache_age = None, body = Send (entry_value (cache Total))\<rparr>
                         else \<lparr>status = 500, content_type = ''text/plain'', x_cache = None,
                               x_cache_age = None, body = Send (TextValue ''0'')\<rparr>),
            cache_after = cache, world_after = w', refresh_started = False\<rparr>"
  using assms by (simp add: get_total_supply_def Let_def getCachedValue_def)

lemma plain_text_endpoints_never_throw:
  "\<not> isl (reply (get_circulating_supply rt eps cache w))"
  "\<not> isl (reply (get_total_supply rt eps cache w))"
  by (simp_all add: get_circulating_supply_def get_total_supply_def Let_def split: prod.splits sum.splits)

lemma get_detailed_miss_success:
  assumes "getCacheStatus cache Detailed (date_now rt w) = MISS"
    and "getAllChainsCirculatingSupply rt eps w = (Inr data, w')"
  shows "get_detailed rt eps cache w =
           \<lparr>reply = Inr \<lparr>status = 200, content_type = ''application/json'', x_cache = Some MISS,
                         x_cache_age = None,
                         body = Json_detailed
                                  (formatDetailedResponse rt
                                     (updateCache cache Detailed (DataValue data) (date_now rt w'))
                                     (date_now rt w') data)\<rparr>,
            cache_after = updateCache cache Detailed (DataValue data) (date_now rt w'),
            world_after = w', refresh_started = False\<rparr>"
  using assms by (simp add: get_detailed_def Let_def)

lemma get_detailed_miss_failure:
  assumes "getCacheStatus cache Detailed (date_now rt w) = MISS"
    and "getAllChainsCirculatingSupply rt eps w = (Inl (Error m), w')"
  shows "get_detailed rt eps cache w =
           \<lparr>reply = Inr \<lparr>status = 500, content_type = ''application/json'', x_cache = None,
                         x_cache_age = None, body = Json_error (Some m)\<rparr>,
            cache_after = cache, world_after = w', refresh_started = False\<rparr>"
  using assms by (simp add: get_detailed_def Let_def)

lemma background_refresh_failure:
  "getAllChainsCirculatingSupply rt eps w = (Inl e, w') \<Longrightarrow> background_refresh rt eps cache w = (cache, w')"
  by (simp add: background_refresh_def)

lemma background_refresh_success:
  "getAllChainsCirculatingSupply rt eps w = (Inr data, w') \<Longrightarrow>
   background_refresh rt eps cache w = (updateAll rt cache data (date_now rt w'), w')"
  by (simp add: background_refresh_def)

lemma clock_runtime_now [simp]: "date_now (clock_runtime tot bal dec fmt) w = w"
  by (simp add: clock_runtime_def)

lemma clock_runtime_format [simp]: "formatUnits (clock_runtime tot bal dec fmt) = fmt"
  by (simp add: clock_runtime_def)

lemma warm_cache_status:
  "getCacheStatus warm_cache cacheKey 100000 = STALE"
  "getCacheStatus warm_cache cacheKey 100001 = STALE"
  "getCacheStatus warm_cache cacheKey 400000 = MISS"
  "getCacheStatus empty_cache cacheKey now = MISS"
  by (cases cacheKey;
      simp add: getCacheStatus_def isCacheFresh_def isCacheStale_def Let_def warm_cache_def empty_cache_def
        CACHE_TTL_def STALE_WHILE_REVALIDATE_def)+

lemma warm_cache_fetched:
  "updateAll (clock_runtime tot bal dec ethers_formatUnits) empty_cache (example_data (10 ^ 18) 1000) 1000 = warm_cache"
  by (rule cache_eqI)
     (simp_all add: updateAll_def updateCache_def Let_def formatSupply_def warm_cache_def example_data_def
        format_circulating[simplified] format_total[simplified])

lemma format_doubled_circulating: "ethers_formatUnits (900000000 * (2 * 10 ^ 18)) 18 = ''1800000000.0''"
  by (simp add: ethers_formatUnits_def bigint_toString.simps pad_zeros.simps digit_char_def Let_def)

lemma format_doubled_total: "ethers_formatUnits (1000000000 * (2 * 10 ^ 18)) 18 = ''2000000000.0''"
  by (simp add: ethers_formatUnits_def bigint_toString.simps pad_zeros.simps digit_char_def Let_def)

lemma growing_fetch_early:
  "getAllChainsCirculatingSupply growing_runtime default_endpoints 1000 =
     (Inr (example_data (10 ^ 18) 1000), 1000)"
  by code_simp

lemma outage_first_request:
  "cache_after (get_circulating_supply outage_runtime default_endpoints empty_cache 1000) = warm_cache"
proof -
  have "cache_after (get_circulating_supply outage_runtime default_endpoints empty_cache 1000) =
          updateAll outage_runtime empty_cache (example_data (10 ^ 18) 1000) (date_now outage_runtime 1000)"
    by (subst get_circulating_supply_miss_success) (simp_all add: warm_cache_status outage_fetch_up)
  then show ?thesis
    using warm_cache_fetched by (simp add: outage_runtime_def)
qed

lemma growing_first_request:
  "cache_after (get_circulating_supply growing_runtime default_endpoints empty_cache 1000) = warm_cache"
proof -
  have "cache_after (get_circulating_supply growing_runtime default_endpoints empty_cache 1000) =
          updateAll growing_runtime empty_cache (example_data (10 ^ 18) 1000) (date_now growing_runtime 1000)"
    by (subst get_circulating_supply_miss_success) (simp_all add: warm_cache_status growing_fetch_early)
  then show ?thesis
    using warm_cache_fetched by (simp add: growing_runtime_def)
qed

text \<open>
  C2. When the synchronous fetch fails, \<open>/api/circulating-supply\<close> and
  \<open>/api/total-supply\<close> serve the cached value they still hold, tagged \<open>ERROR-FALLBACK\<close>,
  or \<open>'0'\<close> with status 500 when they hold none
  (\<open>get_circulating_supply_miss_failure\<close>, \<open>get_total_supply_miss_failure\<close>), and they never
  throw. \<open>/api/circulating-supply/detailed\<close> does not: the server has answered a request at
  time 1000, its three entries hold that fetch; at time 400000 the entries have expired
  and every node is down. The detailed endpoint answers with status 500 and the message
  of the error, with no \<open>X-Cache\<close> header, although \<open>cache.detailed\<close> holds a value; on the
  same cache and the same world the two plain-text endpoints serve their cached value
  tagged \<open>ERROR-FALLBACK\<close>.
\<close>

theorem detailed_has_no_error_fallback:
  "cache_after (get_circulating_supply outage_runtime default_endpoints empty_cache 1000) = warm_cache \<and>
   getCacheStatus warm_cache Detailed 400000 = MISS \<and>
   getCachedValue warm_cache Detailed = DataValue (example_data (10 ^ 18) 1000) \<and>
   get_detailed outage_runtime default_endpoints warm_cache 400000 =
     \<lparr>reply = Inr \<lparr>status = 500, content_type = ''application/json'', x_cache = None,
                   x_cache_age = None, body = Json_error (Some ''down'')\<rparr>,
      cache_after = warm_cache, world_after = 400000, refresh_started = False\<rparr> \<and>
   get_circulating_supply outage_runtime default_endpoints warm_cache 400000 =
     \<lparr>reply = Inr \<lparr>status = 200, content_type = ''text/plain'', x_cache = Some ERROR_FALLBACK,
                   x_cache_age = None, body = Send (TextValue ''900000000.0'')\<rparr>,
      cache_after = warm_cache, world_after = 400000, refresh_started = False\<rparr> \<and>
   get_total_supply outage_runtime default_endpoints warm_cache 400000 =
     \<lparr>reply = Inr \<lparr>status = 200, content_type = ''text/plain'', x_cache = Some ERROR_FALLBACK,
                   x_cache_age = None, body = Send (TextValue ''1000000000.0'')\<rparr>,
      cache_after = warm_cache, world_after = 400000, refresh_started = False\<rparr>"
proof (intro conjI)
  have now: "date_now outage_runtime w = w" for w
    by (simp add: outage_runtime_def)
  show "cache_after (get_circulating_supply outage_runtime default_endpoints empty_cache 1000) = warm_cache"
    by (rule outage_first_request)
  show "getCacheStatus warm_cache Detailed 400000 = MISS"
    by (rule warm_cache_status)
  show "getCachedValue warm_cache Detailed = DataValue (example_data (10 ^ 18) 1000)"
    by (simp add: getCachedValue_def warm_cache_def)
  show "get_detailed outage_runtime default_endpoints warm_cache 400000 =
     \<lparr>reply = Inr \<lparr>status = 500, content_type = ''application/json'', x_cache = None,
                   x_cache_age = None, body = Json_error (Some ''down'')\<rparr>,
      cache_after = warm_cache, world_after = 400000, refresh_started = False\<rparr>"
    by (rule get_detailed_miss_failure) (simp_all add: now warm_cache_status outage_fetch_down)
  show "get_circulating_supply outage_runtime default_endpoints warm_cache 400000 =
     \<lparr>reply = Inr \<lparr>status = 200, content_type = ''text/plain'', x_cache = Some ERROR_FALLBACK,
                   x_cache_age = None, body = Send (TextValue ''900000000.0'')\<rparr>,
      cache_after = warm_cache, world_after = 400000, refresh_started = False\<rparr>"
    using get_circulating_supply_miss_failure[of warm_cache outage_runtime 400000 default_endpoints
        "Error ''down''" 400000]
    by (simp add: now warm_cache_status outage_fetch_down) (simp add: warm_cache_def)
  show "get_total_supply outage_runtime default_endpoints warm_cache 400000 =
     \<lparr>reply = Inr \<lparr>status = 200, content_type = ''text/plain'', x_cache = Some ERROR_FALLBACK,
                   x_cache_age = None, body = Send (TextValue ''1000000000.0'')\<rparr>,
      cache_after = warm_cache, world_after = 400000, refresh_started = False\<rparr>"
    using get_total_supply_miss_failure[of warm_cache outage_runtime 400000 default_endpoints
        "Error ''down''" 400000]
    by (simp add: now warm_cache_status outage_fetch_down) (simp add: warm_cache_def)
qed

text \<open>
  C3. After a fetch the two plain-text endpoints write the three entries from the one
  snapshot (\<open>get_circulating_supply_miss_success\<close>, \<open>get_total_supply_miss_success\<close>:
  the cache afterwards is \<open>updateAll\<close>). The detailed endpoint writes \<open>cache.detailed\<close>
  alone: the server has answered a request at time 1000, its three entries hold that
  fetch; by time 400000 the supplies have doubled and the entries have expired. After
  \<open>/api/circulating-supply/detailed\<close> the detailed entry holds the new snapshot while the
  circulating and total entries still hold the strings of the old one; after
  \<open>/api/circulating-supply\<close> on the same cache and world all three hold the new one.
\<close>

theorem detailed_updates_only_its_entry:
  "cache_after (get_circulating_supply growing_runtime default_endpoints empty_cache 1000) = warm_cache \<and>
   getCacheStatus warm_cache Detailed 400000 = MISS \<and>
   cache_after (get_detailed growing_runtime default_endpoints warm_cache 400000) Detailed =
     \<lparr>entry_value = DataValue (example_data (2 * 10 ^ 18) 400000), entry_timestamp = 400000,
      entry_error = None\<rparr> \<and>
   cache_after (get_detailed growing_runtime default_endpoints warm_cache 400000) Circulating =
     \<lparr>entry_value = TextValue ''900000000.0'', entry_timestamp = 1000, entry_error = None\<rparr> \<and>
   cache_after (get_detailed growing_runtime default_endpoints warm_cache 400000) Total =
     \<lparr>entry_value = TextValue ''1000000000.0'', entry_timestamp = 1000, entry_error = None\<rparr> \<and>
   cache_after (get_circulating_supply growing_runtime default_endpoints warm_cache 400000) Detailed =
     \<lparr>entry_value = DataValue (example_data (2 * 10 ^ 18) 400000), entry_timestamp = 400000,
      entry_error = None\<rparr> \<and>
   cache_after (get_circulating_supply growing_runtime default_endpoints warm_cache 400000) Circulating =
     \<lparr>entry_value = TextValue ''1800000000.0'', entry_timestamp = 400000, entry_error = None\<rparr> \<and>
   cache_after (get_circulating_supply growing_runtime default_endpoints warm_cache 400000) Total =
     \<lparr>entry_value = TextValue ''2000000000.0'', entry_timestamp = 400000, entry_error = None\<rparr>"
proof -
  have now: "date_now growing_runtime w = w" for w
    by (simp add: growing_runtime_def)
  have fmt: "formatUnits growing_runtime = ethers_formatUnits"
    by (simp add: growing_runtime_def)
  have detailed:
    "cache_after (get_detailed growing_runtime default_endpoints warm_cache 400000) =
       updateCache warm_cache Detailed (DataValue (example_data (2 * 10 ^ 18) 400000)) 400000"
    by (subst get_detailed_miss_success) (simp_all add: now warm_cache_status growing_fetch_late)
  have plain:
    "cache_after (get_circulating_supply growing_runtime default_endpoints warm_cache 400000) =
       updateAll growing_runtime warm_cache (example_data (2 * 10 ^ 18) 400000) 400000"
    by (subst get_circulating_supply_miss_success) (simp_all add: now warm_cache_status growing_fetch_late)
  show ?thesis
    unfolding detailed plain
    by (simp add: growing_first_request warm_cache_status)
       (simp add: updateCache_def updateAll_def Let_def formatSupply_def fmt warm_cache_def
          example_data_def format_doubled_circulating[simplified] format_doubled_total[simplified])
qed

text \<open>
  C7. The end-to-end example, with the amounts as the README gives them, in whole tokens
  of 18 decimals: Ethereum reports a total of 500000000 tokens with 50000000 in excluded
  addresses, Sonic 300000000 with 30000000, Plasma 200000000 with 20000000. The snapshot
  of the enhanced server has a circulating supply of 900000000 tokens, the sum of the
  three chains, and a total supply of 1000000000 tokens, the sum over the chains. On a
  cold cache \<open>/api/circulating-supply\<close> answers the string \<open>900000000.0\<close>, where the
  claim, the README (\<open>"circulatingSupply": "900000000"\<close>) and the comment of
  \<open>formatSupply\<close> (\<open>Format bigint to human-readable number (without decimals)\<close>) have
  \<open>900000000\<close>.
\<close>

theorem example_answer_has_fraction:
  "getAllChainsCirculatingSupply (example_runtime (10 ^ 18)) default_endpoints 5 =
     (Inr (example_data (10 ^ 18) 5), 5) \<and>
   totals_circulatingSupply (totals (example_data (10 ^ 18) 5)) = 900000000 * 10 ^ 18 \<and>
   totals_circulatingSupply (totals (example_data (10 ^ 18) 5)) =
     circulatingSupply (ethereum (chains (example_data (10 ^ 18) 5))) +
     circulatingSupply (sonic (chains (example_data (10 ^ 18) 5))) +
     circulatingSupply (plasma (chains (example_data (10 ^ 18) 5))) \<and>
   totals_totalSupply (totals (example_data (10 ^ 18) 5)) = 1000000000 * 10 ^ 18 \<and>
   decimals (totals (example_data (10 ^ 18) 5)) = 18 \<and>
   reply (get_circulating_supply (example_runtime (10 ^ 18)) default_endpoints empty_cache 5) =
     Inr \<lparr>status = 200, content_type = ''text/plain'', x_cache = Some MISS, x_cache_age = None,
          body = Send (TextValue ''900000000.0'')\<rparr> \<and>
   ''900000000.0'' \<noteq> ''900000000''"
proof -
  have now: "date_now (example_runtime scale) w = w" for scale w
    by (simp add: example_runtime_def)
  have fmt: "formatUnits (example_runtime scale) = ethers_formatUnits" for scale
    by (simp add: example_runtime_def)
  have answer:
    "reply (get_circulating_supply (example_runtime (10 ^ 18)) default_endpoints empty_cache 5) =
       Inr \<lparr>status = 200, content_type = ''text/plain'', x_cache = Some MISS, x_cache_age = None,
            body = Send (TextValue ''900000000.0'')\<rparr>"
    by (subst get_circulating_supply_miss_success[OF _ example_fetch_scaled])
       (simp_all add: now warm_cache_status formatSupply_def fmt example_data_def
          format_circulating[simplified])
  have sums:
    "totals_circulatingSupply (totals (example_data (10 ^ 18) 5)) = 900000000 * 10 ^ 18"
    "totals_circulatingSupply (totals (example_data (10 ^ 18) 5)) =
       circulatingSupply (ethereum (chains (example_data (10 ^ 18) 5))) +
       circulatingSupply (sonic (chains (example_data (10 ^ 18) 5))) +
       circulatingSupply (plasma (chains (example_data (10 ^ 18) 5)))"
    "totals_totalSupply (totals (example_data (10 ^ 18) 5)) = 1000000000 * 10 ^ 18"
    "decimals (totals (example_data (10 ^ 18) 5)) = 18"
    by (simp_all add: example_data_def)
  have differ: "''900000000.0'' \<noteq> ''900000000''"
    by simp
  from example_fetch_scaled sums answer differ show ?thesis
    by (intro conjI)
qed

text \<open>
  C8, as the code has it. Every request that finds the circulating entry (or the total
  entry) in the \<open>STALE\<close> zone is served the cached value, tagged \<open>STALE\<close>, and starts a
  background refresh of its own: nothing marks a refresh as in flight. The handler
  leaves the cache as it is, so a second request in the \<open>STALE\<close> zone starts a second
  refresh. The response is fixed before the refresh runs, and a refresh that fails
  leaves the cache as it was: its failure reaches no caller.
\<close>

theorem stale_request_starts_refresh:
  "(getCacheStatus cache Circulating (date_now rt w) = STALE \<longrightarrow>
      get_circulating_supply rt eps cache w =
        \<lparr>reply = Inr \<lparr>status = 200, content_type = ''text/plain'', x_cache = Some STALE,
                      x_cache_age = Some ((date_now rt w - entry_timestamp (cache Circulating)) div 1000),
                      body = Send (entry_value (cache Circulating))\<rparr>,
         cache_after = cache, world_after = w, refresh_started = True\<rparr>) \<and>
   (getCacheStatus cache Total (date_now rt w) = STALE \<longrightarrow>
      get_total_supply rt eps cache w =
        \<lparr>reply = Inr \<lparr>status = 200, content_type = ''text/plain'', x_cache = Some STALE,
                      x_cache_age = None, body = Send (entry_value (cache Total))\<rparr>,
         cache_after = cache, world_after = w, refresh_started = True\<rparr>) \<and>
   (getAllChainsCirculatingSupply rt eps w = (Inl e, w') \<longrightarrow>
      background_refresh rt eps cache w = (cache, w'))"
  using get_circulating_supply_stale[of cache rt w eps] get_total_supply_stale[of cache rt w eps]
    background_refresh_failure[of rt eps w e w' cache]
  by blast

theorem stale_request_starts_refresh_witness:
  "getCacheStatus warm_cache Circulating (date_now outage_runtime 100000) = STALE \<and>
   getCacheStatus warm_cache Total (date_now outage_runtime 100000) = STALE \<and>
   getAllChainsCirculatingSupply outage_runtime default_endpoints 400000 = (Inl (Error ''down''), 400000) \<and>
   get_circulating_supply outage_runtime default_endpoints warm_cache 100000 =
     \<lparr>reply = Inr \<lparr>status = 200, content_type = ''text/plain'', x_cache = Some STALE,
                   x_cache_age = Some 99, body = Send (TextValue ''900000000.0'')\<rparr>,
      cache_after = warm_cache, world_after = 100000, refresh_started = True\<rparr> \<and>
   get_total_supply outage_runtime default_endpoints warm_cache 100000 =
     \<lparr>reply = Inr \<lparr>status = 200, content_type = ''text/plain'', x_cache = Some STALE,
                   x_cache_age = None, body = Send (TextValue ''1000000000.0'')\<rparr>,
      cache_after = warm_cache, world_after = 100000, refresh_started = True\<rparr> \<and>
   background_refresh outage_runtime default_endpoints warm_cache 400000 = (warm_cache, 400000)"
proof -
  have now: "date_now outage_runtime w = w" for w
    by (simp add: outage_runtime_def)
  show ?thesis
    using stale_request_starts_refresh[of warm_cache outage_runtime 100000 default_endpoints
        "Error ''down''" 400000]
      stale_request_starts_refresh[of warm_cache outage_runtime 400000 default_endpoints
        "Error ''down''" 400000]
    by (simp add: now warm_cache_status outage_fetch_down) (simp add: warm_cache_def)
qed

text \<open>
  C8 as stated fails: two requests that both find the circulating entry in the \<open>STALE\<close>
  zone, the second handled right after the first and before any refresh has finished,
  start two background refreshes.
\<close>

theorem two_stale_requests_counterexample:
  "getCacheStatus warm_cache Circulating 100000 = STALE \<and>
   refresh_started (get_circulating_supply outage_runtime default_endpoints warm_cache 100000) \<and>
   getCacheStatus
     (cache_after (get_circulating_supply outage_runtime default_endpoints warm_cache 100000))
     Circulating 100001 = STALE \<and>
   refresh_started
     (get_circulating_supply outage_runtime default_endpoints
        (cache_after (get_circulating_supply outage_runtime default_endpoints warm_cache 100000)) 100001)"
proof -
  have now: "date_now outage_runtime w = w" for w
    by (simp add: outage_runtime_def)
  have first: "get_circulating_supply outage_runtime default_endpoints warm_cache 100000 =
        \<lparr>reply = Inr \<lparr>status = 200, content_type = ''text/plain'', x_cache = Some STALE,
                      x_cache_age = Some ((date_now outage_runtime 100000 - entry_timestamp (warm_cache Circulating)) div 1000),
                      body = Send (entry_value (warm_cache Circulating))\<rparr>,
         cache_after = warm_cache, world_after = 100000, refresh_started = True\<rparr>"
    by (rule get_circulating_supply_stale) (simp add: now warm_cache_status)
  have second: "get_circulating_supply outage_runtime default_endpoints warm_cache 100001 =
        \<lparr>reply = Inr \<lparr>status = 200, content_type = ''text/plain'', x_cache = Some STALE,
                      x_cache_age = Some ((date_now outage_runtime 100001 - entry_timestamp (warm_cache Circulating)) div 1000),
                      body = Send (entry_value (warm_cache Circulating))\<rparr>,
         cache_after = warm_cache, world_after = 100001, refresh_started = True\<rparr>"
    by (rule get_circulating_supply_stale) (simp add: now warm_cache_status)
  show ?thesis
    unfolding first by (simp add: second warm_cache_status)
qed

end
